theory Spec2Isabelle
  imports Main "HOL-Library.Sublist"
begin

text \<open>
  A model of the Safari content blocker converter (\<open>SafariContentBlockerConverter\<close>): the
  translation of one filter rule into an entry of the content blocker (\<open>AGRuleConverter\<close>),
  the pipeline that groups the entries of a list of rules, applies the element-hiding
  exceptions and compacts the wide rules (\<open>convertLines\<close>), and the result that
  \<open>convertArray\<close> returns. The rule classes, the rule builder and punycode conversion belong
  to the filter engine: a rule is a record of what the converter reads from it, the others
  are parameters. A function that throws returns \<open>Inl\<close> of the message of its error; a
  function that changes an object or an array returns the new one.
\<close>

section \<open>JavaScript strings\<close>

text \<open>
  A JavaScript string is a sequence of code units. It is modelled as a \<^typ>\<open>string\<close>, so the
  code units of the model range over 0..255; a code unit above 127 is a non-ASCII character.
\<close>

definition codeUnit :: "char \<Rightarrow> nat" where
  "codeUnit c = of_char c"

definition startWith :: "string \<Rightarrow> string \<Rightarrow> bool" where
  "startWith str start = prefix start str"

text \<open>\<open>str.indexOf(pat)\<close>: the first position where \<open>pat\<close> occurs, or -1.\<close>

fun indexOfAt :: "string \<Rightarrow> string \<Rightarrow> nat \<Rightarrow> int" where
  "indexOfAt pat [] i = (if pat = [] then int i else -1)"
| "indexOfAt pat (c # cs) i =
     (if prefix pat (c # cs) then int i else indexOfAt pat cs (Suc i))"

definition indexOf :: "string \<Rightarrow> string \<Rightarrow> int" where
  "indexOf str pat = indexOfAt pat str 0"

text \<open>\<open>str.indexOf(pat, from)\<close>: the search starts at \<open>from\<close>, clamped to the length.\<close>

definition indexOfFrom :: "string \<Rightarrow> string \<Rightarrow> nat \<Rightarrow> int" where
  "indexOfFrom str pat from = indexOfAt pat (drop from str) (min from (length str))"

text \<open>\<open>str.substring(a)\<close> and \<open>str.substring(a, b)\<close> for \<open>a \<le> b\<close>.\<close>

definition substringFrom :: "string \<Rightarrow> nat \<Rightarrow> string" where
  "substringFrom str a = drop a str"

definition substring :: "string \<Rightarrow> nat \<Rightarrow> nat \<Rightarrow> string" where
  "substring str a b = take (b - a) (drop a str)"

text \<open>\<open>toLowerCase\<close> on the code units 0..255: A-Z and the Latin-1 capitals move by 32.\<close>

definition lowerChar :: "char \<Rightarrow> char" where
  "lowerChar c =
     (let n = codeUnit c in
      if (65 \<le> n \<and> n \<le> 90) \<or> (192 \<le> n \<and> n \<le> 222 \<and> n \<noteq> 215)
      then char_of (n + 32) else c)"

definition toLowerCase :: "string \<Rightarrow> string" where
  "toLowerCase s = map lowerChar s"

text \<open>\<open>array.join(sep)\<close>.\<close>

fun join :: "string \<Rightarrow> string list \<Rightarrow> string" where
  "join sep [] = []"
| "join sep [x] = x"
| "join sep (x # y # ys) = x @ sep @ join sep (y # ys)"

text \<open>\<open>'' + n\<close> for an integer \<open>n\<close>: its decimal digits.\<close>

fun showNat :: "nat \<Rightarrow> string" where
  "showNat n =
     (if n < 10 then [char_of (48 + n)]
      else showNat (n div 10) @ [char_of (48 + n mod 10)])"

definition showInt :: "int \<Rightarrow> string" where
  "showInt i = (if i < 0 then CHR ''-'' # showNat (nat (- i)) else showNat (nat i))"

section \<open>Regular expressions\<close>

text \<open>
  The regular expressions of the converter use character classes, sequencing and the
  quantifiers \<open>*\<close>, \<open>+\<close> and \<open>{2,}\<close> only, so whether a string has a match is decided by
  derivatives. \<open>rxTest\<close> is \<open>str.match(re)\<close> being non-null for an unanchored expression,
  \<open>rxMatches\<close> is \<open>re.test(str)\<close> for an expression between \<open>^\<close> and \<open>$\<close>.
\<close>

datatype rx =
    Cls "char \<Rightarrow> bool"
  | Cat rx rx
  | Star rx
  | Plus rx
  | Eps
  | Fail

fun nullable :: "rx \<Rightarrow> bool" where
  "nullable (Cls p) = False"
| "nullable (Cat r s) = (nullable r \<and> nullable s)"
| "nullable (Star r) = True"
| "nullable (Plus r) = nullable r"
| "nullable Eps = True"
| "nullable Fail = False"

text \<open>
  A derivative is a finite union of expressions, kept as a list: \<open>deriv c r\<close> lists the
  expressions one of which must match the rest of the input after \<open>c\<close>.
\<close>

fun deriv :: "char \<Rightarrow> rx \<Rightarrow> rx list" where
  "deriv c (Cls p) = (if p c then [Eps] else [])"
| "deriv c (Cat r s) =
     map (\<lambda>r'. Cat r' s) (deriv c r) @ (if nullable r then deriv c s else [])"
| "deriv c (Star r) = map (\<lambda>r'. Cat r' (Star r)) (deriv c r)"
| "deriv c (Plus r) = map (\<lambda>r'. Cat r' (Star r)) (deriv c r)"
| "deriv c Eps = []"
| "deriv c Fail = []"

fun rxRun :: "rx list \<Rightarrow> string \<Rightarrow> bool" where
  "rxRun rs [] = (\<exists>r \<in> set rs. nullable r)"
| "rxRun rs (c # cs) = rxRun (concat (map (deriv c) rs)) cs"

definition rxMatches :: "rx \<Rightarrow> string \<Rightarrow> bool" where
  "rxMatches r s = rxRun [r] s"

definition anyChar :: "char \<Rightarrow> bool" where
  "anyChar c = True"

definition rxTest :: "rx \<Rightarrow> string \<Rightarrow> bool" where
  "rxTest r s = rxMatches (Cat (Star (Cls anyChar)) (Cat r (Star (Cls anyChar)))) s"

definition bslash :: char where
  "bslash = CHR 0x5C"

definition Chr :: "char \<Rightarrow> rx" where
  "Chr c = Cls (\<lambda>x. x = c)"

definition inRange :: "char \<Rightarrow> char \<Rightarrow> char \<Rightarrow> bool" where
  "inRange lo hi c = (codeUnit lo \<le> codeUnit c \<and> codeUnit c \<le> codeUnit hi)"

text \<open>\<open>.\<close> matches every code unit but a line terminator.\<close>

definition dot :: "char \<Rightarrow> bool" where
  "dot c = (c \<noteq> CHR 0x0A \<and> c \<noteq> CHR 0x0D)"

text \<open>\<open>\S\<close>: every code unit that is not white space (tab, LF, VT, FF, CR, space, NBSP).\<close>

definition nonSpace :: "char \<Rightarrow> bool" where
  "nonSpace c = (codeUnit c \<notin> {9, 10, 11, 12, 13, 32, 160})"

definition alnum :: "char \<Rightarrow> bool" where
  "alnum c = (inRange CHR ''a'' CHR ''z'' c \<or> inRange CHR ''A'' CHR ''Z'' c
              \<or> inRange CHR ''0'' CHR ''9'' c)"

text \<open>\<open>r{2,}\<close>\<close>

definition atLeast2 :: "rx \<Rightarrow> rx" where
  "atLeast2 r = Cat r (Cat r (Star r))"

section \<open>The rule model\<close>

text \<open>
  A parsed rule is an object of one of the rule classes of the filter engine. The record
  holds what the converter reads from it: fields, and the results of the accessor methods
  (\<open>getUrlRuleText()\<close>, \<open>getUrlRegExpSource()\<close> under the regex configuration of the
  conversion, \<open>isCspRule()\<close>, ...). \<open>urlRegExp\<close> is the \<open>source\<close> of the compiled regex,
  when there is one.
\<close>

datatype rule_class = CssFilterRule | UrlFilterRule | OtherRule

record rule =
  cls :: rule_class
  ruleText :: string
  whiteListRule :: bool
  isImportant :: bool
  isBadFilter :: bool
  badFilter :: string
  permittedDomain :: "string option"
  permittedDomains :: "string list option"
  restrictedDomain :: "string option"
  restrictedDomains :: "string list option"
  cssSelector :: string
  isInjectRule :: bool
  extendedCss :: bool
  urlRuleText :: string
  isRegexRule :: bool
  urlRegExp :: "string option"
  urlRegExpSource :: "string option"
  permittedContentType :: nat
  restrictedContentType :: nat
  enabledOptions :: nat
  checkContentTypeMask :: "nat \<Rightarrow> bool"
  isThirdParty :: bool
  isCheckThirdParty :: bool
  isMatchCase :: bool
  isBlockPopups :: bool
  isCspRule :: bool
  isDocumentWhiteList :: bool
  getReplace :: bool

text \<open>The bitmask constants \<open>UrlFilterRule.contentTypes\<close> and \<open>UrlFilterRule.options\<close>.\<close>

record contentTypes_t =
  ALL_TYPES :: nat
  IMAGE :: nat
  STYLESHEET :: nat
  SCRIPT :: nat
  MEDIA :: nat
  XMLHTTPREQUEST :: nat
  OTHER :: nat
  WEBSOCKET :: nat
  FONT :: nat
  SUBDOCUMENT :: nat
  OBJECT :: nat
  OBJECT_SUBREQUEST :: nat
  WEBRTC :: nat

record options_t =
  JSINJECT :: nat
  URLBLOCK :: nat
  GENERICBLOCK :: nat
  GENERICHIDE :: nat
  ELEMHIDE :: nat

text \<open>
  The collaborators of the converter: the bitmask constants, punycode conversion, the rule
  builder (\<open>Inl\<close> is the text of an exception it throws, \<open>Inr None\<close> is \<open>null\<close>) and the
  text that string concatenation gives for a rule object.
\<close>

record env =
  contentTypes :: contentTypes_t
  options :: options_t
  toPunyCode :: "string \<Rightarrow> string"
  createRule :: "string \<Rightarrow> string + rule option"
  ruleToString :: "rule \<Rightarrow> string"

section \<open>Output entries\<close>

record trigger_t =
  url_filter :: string
  url_filter_is_case_sensitive :: "bool option"
  resource_type :: "string list option"
  load_type :: "string list option"
  if_domain :: "string list option"
  unless_domain :: "string list option"

record action_t =
  atype :: string
  selector :: "string option"

record entry =
  trigger :: trigger_t
  action :: action_t

section \<open>Constants of the converter\<close>

definition MAX_SELECTORS_PER_WIDE_RULE :: nat where
  "MAX_SELECTORS_PER_WIDE_RULE = 250"

definition ANY_URL_TEMPLATES :: "string list" where
  "ANY_URL_TEMPLATES = [''||*'', [], ''*'', ''|*'']"

definition URL_FILTER_ANY_URL :: string where
  "URL_FILTER_ANY_URL = ''^[htpsw]+:'' @ [bslash] @ ''/'' @ [bslash] @ ''/''"

definition URL_FILTER_WS_ANY_URL :: string where
  "URL_FILTER_WS_ANY_URL = ''^wss?:'' @ [bslash] @ ''/'' @ [bslash] @ ''/''"

definition URL_FILTER_CSS_RULES :: string where
  "URL_FILTER_CSS_RULES = ''.*''"

section \<open>AGRuleConverter\<close>

text \<open>A JavaScript value used as a condition: a string is truthy when it is not empty.\<close>

definition truthy :: "string option \<Rightarrow> bool" where
  "truthy v = (case v of None \<Rightarrow> False | Some s \<Rightarrow> s \<noteq> [])"

definition punyLower :: "env \<Rightarrow> string \<Rightarrow> string" where
  "punyLower env d = toPunyCode env (toLowerCase d)"

text \<open>
  \<open>parseDomains\<close>: the lists are walked from the last index down (\<open>while (iDomains--)\<close>),
  empty strings skipped.
\<close>

definition domainsOf :: "env \<Rightarrow> string option \<Rightarrow> string list option \<Rightarrow> string list" where
  "domainsOf env single many =
     (if truthy single then
        (case single of Some d \<Rightarrow> [punyLower env d] | None \<Rightarrow> [])
      else
        (case many of
           Some domains \<Rightarrow> map (punyLower env) (filter (\<lambda>d. d \<noteq> []) (rev domains))
         | None \<Rightarrow> []))"

definition parseDomains :: "env \<Rightarrow> rule \<Rightarrow> string list \<times> string list" where
  "parseDomains env rule =
     (domainsOf env (permittedDomain rule) (permittedDomains rule),
      domainsOf env (restrictedDomain rule) (restrictedDomains rule))"

definition addThirdParty :: "trigger_t \<Rightarrow> rule \<Rightarrow> trigger_t" where
  "addThirdParty trg rule =
     (if isCheckThirdParty rule
      then trg\<lparr>load_type := Some (if isThirdParty rule then [''third-party''] else [''first-party''])\<rparr>
      else trg)"

definition addMatchCase :: "trigger_t \<Rightarrow> rule \<Rightarrow> trigger_t" where
  "addMatchCase trg rule =
     (if isMatchCase rule then trg\<lparr>url_filter_is_case_sensitive := Some True\<rparr> else trg)"

text \<open>A thrown \<open>Error\<close> is \<open>Inl\<close> of its message.\<close>

definition writeDomainOptions :: "string list \<Rightarrow> string list \<Rightarrow> trigger_t \<Rightarrow> string + trigger_t" where
  "writeDomainOptions included excluded trg =
     (if length included > 0 \<and> length excluded > 0
      then Inl ''Safari does not support both permitted and restricted domains''
      else
        (let trg = (if length included > 0 then trg\<lparr>if_domain := Some included\<rparr> else trg);
             trg = (if length excluded > 0 then trg\<lparr>unless_domain := Some excluded\<rparr> else trg)
         in Inr trg))"

definition addDomainOptions :: "env \<Rightarrow> trigger_t \<Rightarrow> rule \<Rightarrow> string + trigger_t" where
  "addDomainOptions env trg rule =
     (case parseDomains env rule of (included, excluded) \<Rightarrow>
        writeDomainOptions included excluded trg)"

definition setWhiteList :: "rule \<Rightarrow> entry \<Rightarrow> entry" where
  "setWhiteList rule result =
     (if whiteListRule rule
      then result\<lparr>action := (action result)\<lparr>atype := ''ignore-previous-rules''\<rparr>\<rparr>
      else result)"

definition hasContentType :: "rule \<Rightarrow> nat \<Rightarrow> bool" where
  "hasContentType rule contentType = checkContentTypeMask rule contentType"

definition isContentType :: "rule \<Rightarrow> nat \<Rightarrow> bool" where
  "isContentType rule contentType = (permittedContentType rule = contentType)"

definition isSingleOption :: "rule \<Rightarrow> nat \<Rightarrow> bool" where
  "isSingleOption rule option = (enabledOptions rule = option)"

definition resourceTypes :: "env \<Rightarrow> rule \<Rightarrow> string list" where
  "resourceTypes env rule =
     (let ct = contentTypes env;
          types = [];
          types = (if hasContentType rule (IMAGE ct) then types @ [''image''] else types);
          types = (if hasContentType rule (STYLESHEET ct) then types @ [''style-sheet''] else types);
          types = (if hasContentType rule (SCRIPT ct) then types @ [''script''] else types);
          types = (if hasContentType rule (MEDIA ct) then types @ [''media''] else types);
          types = (if hasContentType rule (XMLHTTPREQUEST ct) \<or> hasContentType rule (OTHER ct)
                      \<or> hasContentType rule (WEBSOCKET ct)
                   then types @ [''raw''] else types);
          types = (if hasContentType rule (FONT ct) then types @ [''font''] else types);
          types = (if hasContentType rule (SUBDOCUMENT ct) then types @ [''document''] else types);
          types = (if isBlockPopups rule then [''popup''] else types)
      in types)"

definition addResourceType :: "env \<Rightarrow> rule \<Rightarrow> entry \<Rightarrow> string + entry" where
  "addResourceType env rule result =
     (let ct = contentTypes env in
      if permittedContentType rule = ALL_TYPES ct \<and> restrictedContentType rule = 0 then Inr result
      else
        (let types = resourceTypes env rule in
         if isContentType rule (OBJECT ct) then Inl ''$object content type is not yet supported''
         else if isContentType rule (OBJECT_SUBREQUEST ct)
           then Inl ''$object_subrequest content type is not yet supported''
         else if isContentType rule (WEBRTC ct) then Inl ''$webrtc content type is not yet supported''
         else if isSingleOption rule (JSINJECT (options env)) then Inl ''$jsinject rules are ignored.''
         else if getReplace rule then Inl ''$replace rules are ignored.''
         else if length types > 0
           then Inr (result\<lparr>trigger := (trigger result)\<lparr>resource_type := Some types\<rparr>\<rparr>)
         else Inr result))"

definition createUrlFilterString :: "env \<Rightarrow> rule \<Rightarrow> string" where
  "createUrlFilterString env urlFilterRule =
     (let isWebSocket = (permittedContentType urlFilterRule = WEBSOCKET (contentTypes env)) in
      if urlRuleText urlFilterRule \<in> set ANY_URL_TEMPLATES
      then (if isWebSocket then URL_FILTER_WS_ANY_URL else URL_FILTER_ANY_URL)
      else
        (case (if isRegexRule urlFilterRule then urlRegExp urlFilterRule else None) of
           Some src \<Rightarrow> src
         | None \<Rightarrow>
            if \<not> truthy (urlRegExpSource urlFilterRule) then URL_FILTER_ANY_URL
            else
              (case urlRegExpSource urlFilterRule of
                 None \<Rightarrow> URL_FILTER_ANY_URL
               | Some src \<Rightarrow>
                  if isWebSocket \<and> indexOf src ''^'' \<noteq> 0 \<and> indexOf src ''ws'' \<noteq> 0
                  then URL_FILTER_WS_ANY_URL @ ''.*'' @ src
                  else src)))"

record parsed_domain =
  domain :: string
  path :: "string option"

definition domainRegExp :: rx where
  "domainRegExp =
     Cat (Cls alnum)
      (Cat (Star (Cls (\<lambda>c. alnum c \<or> c = CHR ''-'' \<or> c = CHR ''.'')))
       (Cat (Cls alnum)
        (Cat (Chr CHR ''.'')
         (atLeast2 (Cls (\<lambda>c. inRange CHR ''a'' CHR ''z'' c \<or> inRange CHR ''A'' CHR ''Z'' c
                              \<or> c = CHR ''-''))))))"

definition parseRuleDomain :: "env \<Rightarrow> string \<Rightarrow> parsed_domain option" where
  "parseRuleDomain env text =
     (let startsWith = [''http://www.'', ''https://www.'', ''http://'', ''https://'', ''||'', ''//''];
          contains = [''/'', ''^''];
          startIndex = (case find (startWith text) startsWith of
                          Some start \<Rightarrow> length start | None \<Rightarrow> 0);
          exceptRule = ''domain='';
          domainIndex = indexOf text exceptRule;
          startIndex = (if domainIndex > -1 \<and> indexOf text ''$'' > -1
                        then nat domainIndex + length exceptRule else startIndex);
          symbolIndex = (case find (\<lambda>contain. indexOfFrom text contain startIndex \<ge> 0) contains of
                           Some contain \<Rightarrow> indexOfFrom text contain startIndex
                         | None \<Rightarrow> -1);
          domain = (if symbolIndex = -1 then substringFrom text startIndex
                    else substring text startIndex (nat symbolIndex));
          path = (if symbolIndex = -1 then None
                  else Some (substringFrom text (nat symbolIndex)))
      in if \<not> rxMatches domainRegExp domain then None
         else Some \<lparr>domain = toLowerCase (toPunyCode env domain), path = path\<rparr>)"

definition convertCssFilterRule :: "env \<Rightarrow> rule \<Rightarrow> string + entry" where
  "convertCssFilterRule env rule =
     (if isInjectRule rule
      then Inl (''CSS-injection rule '' @ ruleText rule @ '' cannot be converted'')
      else if extendedCss rule
      then Inl (''Extended CSS rule '' @ ruleText rule @ '' cannot be converted'')
      else
        (let result = \<lparr>trigger = \<lparr>url_filter = URL_FILTER_CSS_RULES,
                                    url_filter_is_case_sensitive = None, resource_type = None,
                                    load_type = None, if_domain = None, unless_domain = None\<rparr>,
                        action = \<lparr>atype = ''css-display-none'', selector = Some (cssSelector rule)\<rparr>\<rparr>;
             result = setWhiteList rule result
         in case addDomainOptions env (trigger result) rule of
              Inl ex \<Rightarrow> Inl ex
            | Inr trg \<Rightarrow> Inr (result\<lparr>trigger := trg\<rparr>)))"

definition validateUrlBlockingRule :: "entry \<Rightarrow> string + unit" where
  "validateUrlBlockingRule rule =
     (if atype (action rule) = ''block''
         \<and> (case resource_type (trigger rule) of None \<Rightarrow> False | Some ts \<Rightarrow> ''document'' \<in> set ts)
         \<and> if_domain (trigger rule) = None
         \<and> (case load_type (trigger rule) of None \<Rightarrow> True | Some ls \<Rightarrow> ''third-party'' \<notin> set ls)
      then Inl ''Document blocking rules are allowed only along with third-party or if-domain modifiers''
      else Inr ())"

definition isUrlBlockRule :: "env \<Rightarrow> rule \<Rightarrow> bool" where
  "isUrlBlockRule env r =
     (isSingleOption r (URLBLOCK (options env)) \<or> isSingleOption r (GENERICBLOCK (options env)))"

definition isCssExceptionRule :: "env \<Rightarrow> rule \<Rightarrow> bool" where
  "isCssExceptionRule env r =
     (isSingleOption r (GENERICHIDE (options env)) \<or> isSingleOption r (ELEMHIDE (options env)))"

definition deleteResourceType :: "entry \<Rightarrow> entry" where
  "deleteResourceType result = result\<lparr>trigger := (trigger result)\<lparr>resource_type := None\<rparr>\<rparr>"

definition checkWhiteListExceptions :: "env \<Rightarrow> rule \<Rightarrow> entry \<Rightarrow> string + entry" where
  "checkWhiteListExceptions env rule result =
     (if whiteListRule rule then
        (let documentRule = isDocumentWhiteList rule in
         if documentRule \<or> isUrlBlockRule env rule \<or> isCssExceptionRule env rule then
           (let result = (if documentRule then deleteResourceType result else result) in
            case parseRuleDomain env (urlRuleText rule) of
              None \<Rightarrow> Inr result
            | Some parseDomainResult \<Rightarrow>
               if path parseDomainResult \<noteq> None \<and> path parseDomainResult \<noteq> Some ''^''
                    \<and> path parseDomainResult \<noteq> Some ''/''
               then Inr result
               else
                 (case writeDomainOptions [domain parseDomainResult] [] (trigger result) of
                    Inl ex \<Rightarrow> Inl ex
                  | Inr trg \<Rightarrow>
                     Inr (deleteResourceType
                            (result\<lparr>trigger := trg\<lparr>url_filter := URL_FILTER_ANY_URL\<rparr>\<rparr>))))
         else Inr result)
      else Inr result)"

definition rxDigit :: rx where
  "rxDigit = Cat (Chr CHR ''{'')
              (Cat (Plus (Cls (\<lambda>c. inRange CHR ''0'' CHR ''9'' c \<or> c = CHR '','')))
                   (Chr CHR ''}''))"

definition rxPipe :: rx where
  "rxPipe = Cat (Plus (Cls (\<lambda>c. c \<noteq> bslash)))
             (Cat (Plus (Chr CHR ''|'')) (Star (Cls nonSpace)))"

definition rxNonAscii :: rx where
  "rxNonAscii = Cls (\<lambda>c. \<not> inRange (CHR 0x00) (CHR 0x7F) c)"

definition rxLookahead :: rx where
  "rxLookahead = Cat (Chr CHR ''('') (Cat (Chr CHR ''?'') (Cat (Chr CHR ''!'')
                   (Cat (Star (Cls dot)) (Chr CHR '')''))))"

definition rxMeta :: rx where
  "rxMeta = Cat (Cls (\<lambda>c. c \<noteq> bslash))
             (Cat (Chr bslash) (Cls (\<lambda>c. c \<in> set ''bBdDfnrsStvwW'')))"

definition validateRegExp :: "string \<Rightarrow> string + unit" where
  "validateRegExp regExp =
     (if rxTest rxDigit regExp
        then Inl ''Safari doesn't support '{digit}' in regular expressions''
      else if rxTest rxPipe regExp
        then Inl ''Safari doesn't support '|' in regular expressions''
      else if rxTest rxNonAscii regExp
        then Inl ''Safari doesn't support non-ASCII characters in regular expressions''
      else if rxTest rxLookahead regExp
        then Inl ''Safari doesn't support negative lookahead in regular expressions''
      else if rxTest rxMeta regExp
        then Inl ''Safari doesn't support metacharacters in regular expressions''
      else Inr ())"

definition convertUrlFilterRule :: "env \<Rightarrow> rule \<Rightarrow> string + entry" where
  "convertUrlFilterRule env rule =
     (if isCspRule rule then Inl ''CSP rules are not supported''
      else
        (let urlFilter = createUrlFilterString env rule in
         case validateRegExp urlFilter of
           Inl ex \<Rightarrow> Inl ex
         | Inr _ \<Rightarrow>
            (let result = \<lparr>trigger = \<lparr>url_filter = urlFilter,
                                        url_filter_is_case_sensitive = None, resource_type = None,
                                        load_type = None, if_domain = None, unless_domain = None\<rparr>,
                            action = \<lparr>atype = ''block'', selector = None\<rparr>\<rparr>;
                 result = setWhiteList rule result
             in case addResourceType env rule result of
                  Inl ex \<Rightarrow> Inl ex
                | Inr result \<Rightarrow>
                   (let trg = addThirdParty (trigger result) rule;
                        trg = addMatchCase trg rule
                    in case addDomainOptions env trg rule of
                         Inl ex \<Rightarrow> Inl ex
                       | Inr trg \<Rightarrow>
                          (case checkWhiteListExceptions env rule (result\<lparr>trigger := trg\<rparr>) of
                             Inl ex \<Rightarrow> Inl ex
                           | Inr result \<Rightarrow>
                              (case validateUrlBlockingRule result of
                                 Inl ex \<Rightarrow> Inl ex
                               | Inr _ \<Rightarrow> Inr result))))))"

section \<open>Converting one rule\<close>

text \<open>
  An element of the input of the converter: \<open>null\<close>, a line of text, or a rule object.
\<close>

datatype input = Null | Line string | Parsed rule

definition CRLF :: string where
  "CRLF = [CHR 0x0D, CHR 0x0A]"

definition LF :: string where
  "LF = [CHR 0x0A]"

text \<open>The text of a thrown \<open>Error\<close> in a string concatenation.\<close>

definition errorToString :: "string \<Rightarrow> string" where
  "errorToString m = ''Error: '' @ m"

definition inputToString :: "env \<Rightarrow> input \<Rightarrow> string" where
  "inputToString env x =
     (case x of Null \<Rightarrow> ''null'' | Line s \<Rightarrow> s | Parsed r \<Rightarrow> ruleToString env r)"

text \<open>
  The functions that take an \<open>errors\<close> array return the messages they push; \<open>report\<close>
  appends them to the array when the caller gave one (\<open>if (errors) errors.push(message)\<close>).
\<close>

definition report :: "string list option \<Rightarrow> string list \<Rightarrow> string list option" where
  "report errors msgs = map_option (\<lambda>es. es @ msgs) errors"

text \<open>Calling \<open>indexOf\<close> on a rule object, which has no such method, throws.\<close>

definition noIndexOf :: string where
  "noIndexOf = ''TypeError: ruleText.indexOf is not a function''"

definition parseAGRule :: "env \<Rightarrow> input \<Rightarrow> rule option \<times> string list" where
  "parseAGRule env x =
     (let failed = (\<lambda>ex. (None, [inputToString env x @ CRLF @ ''Error creating rule from: ''
                                   @ inputToString env x @ '' cause:'' @ LF @ ex @ CRLF]))
      in case x of
           Null \<Rightarrow> (None, [])
         | Line text \<Rightarrow>
            if text = [] \<or> indexOf text ''!'' = 0 \<or> indexOf text '' '' = 0
                 \<or> indexOf text '' - '' > 0
            then (None, [])
            else
              (case createRule env text of
                 Inl ex \<Rightarrow> failed ex
               | Inr None \<Rightarrow> failed (errorToString (''Cannot create rule from: '' @ text))
               | Inr (Some agRule) \<Rightarrow> (Some agRule, []))
         | Parsed r \<Rightarrow> failed noIndexOf)"

definition convertAGRuleToCB :: "env \<Rightarrow> rule option \<Rightarrow> string + entry" where
  "convertAGRuleToCB env rule =
     (case rule of
        None \<Rightarrow> Inl ''Invalid argument rule''
      | Some r \<Rightarrow>
         (case cls r of
            CssFilterRule \<Rightarrow> convertCssFilterRule env r
          | UrlFilterRule \<Rightarrow> convertUrlFilterRule env r
          | OtherRule \<Rightarrow> Inl (''Rule is not supported: '' @ ruleToString env r)))"

definition convertLine :: "env \<Rightarrow> input \<Rightarrow> string list option \<Rightarrow> entry option \<times> string list option" where
  "convertLine env text errors =
     (case parseAGRule env text of (agRule, msgs) \<Rightarrow>
        (let errors = report errors msgs in
         case convertAGRuleToCB env agRule of
           Inr result \<Rightarrow> (Some result, errors)
         | Inl ex \<Rightarrow>
            (let message = ''Error converting rule from: '' @ inputToString env text
                             @ '' cause:'' @ LF @ errorToString ex;
                 message = inputToString env text @ CRLF @ message @ CRLF
             in (None, report errors [message]))))"

definition convertAGRule :: "env \<Rightarrow> rule \<Rightarrow> entry option \<times> string list" where
  "convertAGRule env rule =
     (case convertAGRuleToCB env (Some rule) of
        Inr result \<Rightarrow> (Some result, [])
      | Inl ex \<Rightarrow>
         (None, [''Error converting rule from: ''
                 @ (if ruleText rule \<noteq> [] then ruleText rule else ruleToString env rule)
                 @ '' cause:'' @ LF @ errorToString ex @ CRLF]))"

section \<open>Post-processing\<close>

text \<open>
  \<open>arrayToMap(array, 'action', 'selector')\<close>: the keys in the order of their first
  insertion, each with the positions in \<open>array\<close> of the entries under it. The map holds the
  entries themselves, so an entry changed through the map is changed in the array: the
  model keeps the array as the store and the map as positions in it. (\<open>for ... in\<close> visits
  the keys that look like array indices first; the entries under different keys are
  disjoint, so the order of the visit does not change what is stored.)
\<close>

definition selectorKey :: "entry \<Rightarrow> string" where
  "selectorKey el = (case selector (action el) of Some s \<Rightarrow> s | None \<Rightarrow> ''undefined'')"

fun arrayToMapAdd :: "string \<Rightarrow> nat \<Rightarrow> (string \<times> nat list) list \<Rightarrow> (string \<times> nat list) list" where
  "arrayToMapAdd property i [] = [(property, [i])]"
| "arrayToMapAdd property i ((k, els) # m) =
     (if k = property then (k, els @ [i]) # m else (k, els) # arrayToMapAdd property i m)"

definition arrayToMap :: "entry list \<Rightarrow> (string \<times> nat list) list" where
  "arrayToMap array =
     foldl (\<lambda>m i. arrayToMapAdd (selectorKey (array ! i)) i m) [] [0..<length array]"

definition addWildcard :: "string list option \<Rightarrow> string list option" where
  "addWildcard array = map_option (map (\<lambda>d. ''*'' @ d)) array"

definition applyDomainWildcards :: "entry list \<Rightarrow> entry list" where
  "applyDomainWildcards rules =
     map (\<lambda>rule. rule\<lparr>trigger := (trigger rule)
            \<lparr>if_domain := addWildcard (if_domain (trigger rule)),
             unless_domain := addWildcard (unless_domain (trigger rule))\<rparr>\<rparr>) rules"

text \<open>\<open>array && array.length > 0\<close>\<close>

definition nonEmpty :: "string list option \<Rightarrow> bool" where
  "nonEmpty array = (case array of None \<Rightarrow> False | Some ds \<Rightarrow> length ds > 0)"

definition pushExceptionDomain :: "string \<Rightarrow> entry \<Rightarrow> entry" where
  "pushExceptionDomain exceptionDomain rule =
     (let applicable =
            (case if_domain (trigger rule) of
               None \<Rightarrow> True
             | Some permitted_ds \<Rightarrow>
                if length permitted_ds > 0
                then (\<exists>permitted \<in> set permitted_ds. indexOf exceptionDomain permitted \<ge> 0)
                else True)
      in if \<not> applicable then rule
         else
           (let ruleRestrictedDomains =
                  (case unless_domain (trigger rule) of None \<Rightarrow> [] | Some ds \<Rightarrow> ds)
            in rule\<lparr>trigger := (trigger rule)
                 \<lparr>unless_domain := Some (ruleRestrictedDomains @ [exceptionDomain])\<rparr>\<rparr>))"

text \<open>
  \<open>iterator\<close>: one exception entry applied to the hide entries at the positions
  \<open>selectorRules\<close> of the array.
\<close>

definition iterator :: "entry \<Rightarrow> nat list \<Rightarrow> entry list \<Rightarrow> entry list" where
  "iterator exc selectorRules cssBlocking =
     foldl (\<lambda>store i.
              if nonEmpty (if_domain (trigger exc))
              then (case if_domain (trigger exc) of
                      None \<Rightarrow> store
                    | Some exceptionDomains \<Rightarrow>
                       store[i := foldl (\<lambda>rule d. pushExceptionDomain d rule) (store ! i) exceptionDomains])
              else store)
           cssBlocking selectorRules"

definition applyCssExceptions :: "entry list \<Rightarrow> entry list \<Rightarrow> entry list" where
  "applyCssExceptions cssBlocking cssExceptions =
     (let rulesMap = arrayToMap cssBlocking;
          exceptionRulesMap = arrayToMap cssExceptions;
          store =
            foldl (\<lambda>store (sel, selectorExceptions).
                     case map_of rulesMap sel of
                       None \<Rightarrow> store
                     | Some selectorRules \<Rightarrow>
                        foldl (\<lambda>store e. iterator (cssExceptions ! e) selectorRules store)
                              store selectorExceptions)
                  cssBlocking exceptionRulesMap
      in filter (\<lambda>r. \<not> (nonEmpty (if_domain (trigger r)) \<and> nonEmpty (unless_domain (trigger r))))
                store)"

text \<open>\<open>join\<close> writes an absent element as the empty string.\<close>

definition selectorText :: "entry \<Rightarrow> string" where
  "selectorText rule = (case selector (action rule) of Some s \<Rightarrow> s | None \<Rightarrow> [])"

text \<open>The rule that \<open>addWideRule\<close> builds from the collected selectors.\<close>

definition wideRule :: "string list \<Rightarrow> entry" where
  "wideRule wideSelectors =
     \<lparr>trigger = \<lparr>url_filter = URL_FILTER_CSS_RULES,
                  url_filter_is_case_sensitive = None, resource_type = None,
                  load_type = None, if_domain = None, unless_domain = None\<rparr>,
      action = \<lparr>atype = ''css-display-none'',
                 selector = Some (join '', '' wideSelectors)\<rparr>\<rparr>"

definition addWideRule :: "string list \<Rightarrow> entry list \<Rightarrow> entry list" where
  "addWideRule wideSelectors wideRules =
     (if length wideSelectors = 0 then wideRules
      else wideRules @ [wideRule wideSelectors])"

record cssCompact_t =
  compactWide :: "entry list"
  compactDomainSensitive :: "entry list"
  compactGenericDomainSensitive :: "entry list"
  wideSelectors :: "string list"

fun compactLoop :: "entry list \<Rightarrow> cssCompact_t \<Rightarrow> cssCompact_t" where
  "compactLoop [] st = st"
| "compactLoop (rule # rest) st =
     compactLoop rest
       (if if_domain (trigger rule) \<noteq> None
        then st\<lparr>compactDomainSensitive := compactDomainSensitive st @ [rule]\<rparr>
        else if unless_domain (trigger rule) \<noteq> None
        then st\<lparr>compactGenericDomainSensitive := compactGenericDomainSensitive st @ [rule]\<rparr>
        else
          (let ws = wideSelectors st @ [selectorText rule] in
           if length ws \<ge> MAX_SELECTORS_PER_WIDE_RULE
           then st\<lparr>compactWide := addWideRule ws (compactWide st), wideSelectors := []\<rparr>
           else st\<lparr>wideSelectors := ws\<rparr>))"

definition compactCssRules :: "entry list \<Rightarrow> cssCompact_t" where
  "compactCssRules cssBlocking =
     (let st = compactLoop cssBlocking
                 \<lparr>compactWide = [], compactDomainSensitive = [],
                  compactGenericDomainSensitive = [], wideSelectors = []\<rparr>
      in st\<lparr>compactWide := addWideRule (wideSelectors st) (compactWide st)\<rparr>)"

section \<open>The pipeline\<close>

record contentBlocker =
  cssBlockingWide :: "entry list"
  cssBlockingGenericDomainSensitive :: "entry list"
  cssBlockingGenericHideExceptions :: "entry list"
  cssBlockingDomainSensitive :: "entry list"
  cssElemhide :: "entry list"
  urlBlocking :: "entry list"
  other :: "entry list"
  important :: "entry list"
  importantExceptions :: "entry list"
  documentExceptions :: "entry list"
  errors :: "string list"

text \<open>The state of the loops of \<open>convertLines\<close>.\<close>

record conversion =
  cb :: contentBlocker
  cssBlocking :: "entry list"
  cssExceptions :: "entry list"
  badFilterExceptions :: "string list"
  agRules :: "rule list"

definition emptyConversion :: conversion where
  "emptyConversion =
     \<lparr>cb = \<lparr>cssBlockingWide = [], cssBlockingGenericDomainSensitive = [],
             cssBlockingGenericHideExceptions = [], cssBlockingDomainSensitive = [],
             cssElemhide = [], urlBlocking = [], other = [], important = [],
             importantExceptions = [], documentExceptions = [], errors = []\<rparr>,
      cssBlocking = [], cssExceptions = [], badFilterExceptions = [], agRules = []\<rparr>"

definition pushErrors :: "string list \<Rightarrow> conversion \<Rightarrow> conversion" where
  "pushErrors msgs st = st\<lparr>cb := (cb st)\<lparr>errors := errors (cb st) @ msgs\<rparr>\<rparr>"

text \<open>
  The first loop: an element with a non-empty \<open>ruleText\<close> is a rule, anything else is
  parsed; a \<open>$badfilter\<close> rule gives its \<open>badFilter\<close> text, any other rule is kept for
  translation.
\<close>

definition resolveRule :: "env \<Rightarrow> input \<Rightarrow> rule option \<times> string list" where
  "resolveRule env x =
     (case x of
        Parsed r \<Rightarrow> if ruleText r \<noteq> [] then (Some r, []) else parseAGRule env x
      | _ \<Rightarrow> parseAGRule env x)"

definition collectRule :: "env \<Rightarrow> input \<Rightarrow> conversion \<Rightarrow> conversion" where
  "collectRule env x st =
     (case resolveRule env x of
        (rule, msgs) \<Rightarrow>
          (let st = pushErrors msgs st in
           case rule of
             None \<Rightarrow> st
           | Some r \<Rightarrow>
              if isBadFilter r
              then st\<lparr>badFilterExceptions := badFilterExceptions st @ [badFilter r]\<rparr>
              else st\<lparr>agRules := agRules st @ [r]\<rparr>))"

definition routeItem :: "env \<Rightarrow> rule \<Rightarrow> entry \<Rightarrow> conversion \<Rightarrow> conversion" where
  "routeItem env agRule item st =
     (let c = cb st; t = atype (action item) in
      if t = ''block'' then
        (if isImportant agRule
         then st\<lparr>cb := c\<lparr>important := important c @ [item]\<rparr>\<rparr>
         else st\<lparr>cb := c\<lparr>urlBlocking := urlBlocking c @ [item]\<rparr>\<rparr>)
      else if t = ''css-display-none'' then st\<lparr>cssBlocking := cssBlocking st @ [item]\<rparr>
      else if t = ''ignore-previous-rules'' \<and> truthy (selector (action item))
        then st\<lparr>cssExceptions := cssExceptions st @ [item]\<rparr>
      else if t = ''ignore-previous-rules'' \<and> isSingleOption agRule (GENERICHIDE (options env))
        then st\<lparr>cb := c\<lparr>cssBlockingGenericHideExceptions :=
                           cssBlockingGenericHideExceptions c @ [item]\<rparr>\<rparr>
      else if t = ''ignore-previous-rules'' \<and> isSingleOption agRule (ELEMHIDE (options env))
        then st\<lparr>cb := c\<lparr>cssElemhide := cssElemhide c @ [item]\<rparr>\<rparr>
      else if isImportant agRule
        then st\<lparr>cb := c\<lparr>importantExceptions := importantExceptions c @ [item]\<rparr>\<rparr>
      else if isDocumentWhiteList agRule
        then st\<lparr>cb := c\<lparr>documentExceptions := documentExceptions c @ [item]\<rparr>\<rparr>
      else st\<lparr>cb := c\<lparr>other := other c @ [item]\<rparr>\<rparr>)"

text \<open>The body of the second loop.\<close>

definition convertOne :: "env \<Rightarrow> rule \<Rightarrow> conversion \<Rightarrow> conversion" where
  "convertOne env agRule st =
     (if ruleText agRule \<in> set (badFilterExceptions st) then st
      else
        (case convertAGRule env agRule of
           (item, msgs) \<Rightarrow>
             (let st = pushErrors msgs st in
              case item of None \<Rightarrow> st | Some it \<Rightarrow> routeItem env agRule it st)))"

text \<open>\<open>convertLines\<close>: the first loop, the second loop, and the CSS post-processing.\<close>

definition collectRules :: "env \<Rightarrow> input list \<Rightarrow> conversion" where
  "collectRules env rules = foldl (\<lambda>st x. collectRule env x st) emptyConversion rules"

definition convertRules :: "env \<Rightarrow> conversion \<Rightarrow> conversion" where
  "convertRules env st = foldl (\<lambda>st agRule. convertOne env agRule st) st (agRules st)"

definition compactInto :: "bool \<Rightarrow> conversion \<Rightarrow> contentBlocker" where
  "compactInto optimize st =
     (let hiding = applyCssExceptions (cssBlocking st) (cssExceptions st);
          cssCompact = compactCssRules hiding;
          c = cb st;
          c = (if \<not> optimize then c\<lparr>cssBlockingWide := compactWide cssCompact\<rparr> else c)
      in c\<lparr>cssBlockingGenericDomainSensitive := compactGenericDomainSensitive cssCompact,
            cssBlockingDomainSensitive := compactDomainSensitive cssCompact\<rparr>)"

definition convertLines :: "env \<Rightarrow> input list \<Rightarrow> bool \<Rightarrow> contentBlocker" where
  "convertLines env rules optimize = compactInto optimize (convertRules env (collectRules env rules))"

section \<open>The result\<close>

text \<open>
  \<open>converted\<close> is the array that \<open>JSON.stringify\<close> serialises; \<open>limit\<close> is an integer or
  absent. Every translation builds its entry and its domain arrays afresh, so no two
  entries of the array share a domain array and \<open>applyDomainWildcards\<close> prefixes each host
  once. The regex configuration that \<open>convertArray\<close> sets and restores shows in the model
  as the value of \<open>getUrlRegExpSource()\<close> of each rule.
\<close>

record conversionResult =
  totalConvertedCount :: nat
  convertedCount :: nat
  errorsCount :: nat
  overLimit :: bool
  converted :: "entry list"

definition concatenated :: "contentBlocker \<Rightarrow> entry list" where
  "concatenated c =
     [] @ cssBlockingWide c @ cssBlockingGenericDomainSensitive c
        @ cssBlockingGenericHideExceptions c @ cssBlockingDomainSensitive c @ cssElemhide c
        @ urlBlocking c @ other c @ important c @ importantExceptions c @ documentExceptions c"

definition isOverLimit :: "int option \<Rightarrow> nat \<Rightarrow> bool" where
  "isOverLimit limit len =
     (case limit of None \<Rightarrow> False | Some l \<Rightarrow> l \<noteq> 0 \<and> l > 0 \<and> int len > l)"

definition createConversionResult :: "contentBlocker \<Rightarrow> int option \<Rightarrow> conversionResult" where
  "createConversionResult c limit =
     (let conv = concatenated c;
          convertedLength = length conv;
          over = isOverLimit limit (length conv);
          errs = (if over
                  then errors c @ [showInt (case limit of Some l \<Rightarrow> l | None \<Rightarrow> 0)
                                    @ '' limit is achieved. Next rules will be ignored.'']
                  else errors c);
          conv = (if over then take (nat (case limit of Some l \<Rightarrow> l | None \<Rightarrow> 0)) conv else conv);
          conv = applyDomainWildcards conv
      in \<lparr>totalConvertedCount = convertedLength, convertedCount = length conv,
          errorsCount = length errs, overLimit = over, converted = conv\<rparr>)"

definition convertArray :: "env \<Rightarrow> input list option \<Rightarrow> int option \<Rightarrow> bool \<Rightarrow> conversionResult option" where
  "convertArray env rules limit optimize =
     (case rules of
        None \<Rightarrow> None
      | Some rs \<Rightarrow>
         if length rs = 0 then None
         else Some (createConversionResult (convertLines env rs optimize) limit))"

section \<open>Example inputs\<close>

definition exampleEnv :: env where
  "exampleEnv =
     \<lparr>contentTypes = \<lparr>ALL_TYPES = 1023, IMAGE = 2, STYLESHEET = 4, SCRIPT = 8, MEDIA = 16,
        XMLHTTPREQUEST = 32, OTHER = 64, WEBSOCKET = 128, FONT = 256, SUBDOCUMENT = 512,
        OBJECT = 1024, OBJECT_SUBREQUEST = 2048, WEBRTC = 4096\<rparr>,
      options = \<lparr>JSINJECT = 1, URLBLOCK = 2, GENERICBLOCK = 4, GENERICHIDE = 8, ELEMHIDE = 16\<rparr>,
      toPunyCode = (\<lambda>s. s), createRule = (\<lambda>s. Inr None),
      ruleToString = (\<lambda>r. ''[object Object]'')\<rparr>"

text \<open>The rule \<open>||example.com^\<close>.\<close>

definition exampleUrlRule :: rule where
  "exampleUrlRule =
     \<lparr>cls = UrlFilterRule, ruleText = ''||example.com^'', whiteListRule = False,
      isImportant = False, isBadFilter = False, badFilter = [], permittedDomain = None,
      permittedDomains = None, restrictedDomain = None, restrictedDomains = None,
      cssSelector = [], isInjectRule = False, extendedCss = False,
      urlRuleText = ''||example.com^'', isRegexRule = False, urlRegExp = None,
      urlRegExpSource = Some ''example.com'', permittedContentType = 1023,
      restrictedContentType = 0, enabledOptions = 0, checkContentTypeMask = (\<lambda>m. True),
      isThirdParty = False, isCheckThirdParty = False, isMatchCase = False,
      isBlockPopups = False, isCspRule = False, isDocumentWhiteList = False,
      getReplace = False\<rparr>"

text \<open>The rule \<open>example.org##.ad\<close>.\<close>

definition exampleCssRule :: rule where
  "exampleCssRule =
     exampleUrlRule\<lparr>cls := CssFilterRule, ruleText := ''example.org##.ad'',
       permittedDomain := Some ''example.org'', cssSelector := ''.ad''\<rparr>"

definition exampleUrlEntry :: entry where
  "exampleUrlEntry =
     \<lparr>trigger = \<lparr>url_filter = ''example.com'', url_filter_is_case_sensitive = None,
                  resource_type = None, load_type = None, if_domain = None,
                  unless_domain = None\<rparr>,
      action = \<lparr>atype = ''block'', selector = None\<rparr>\<rparr>"

definition exampleCssEntry :: entry where
  "exampleCssEntry =
     \<lparr>trigger = \<lparr>url_filter = ''.*'', url_filter_is_case_sensitive = None,
                  resource_type = None, load_type = None, if_domain = Some [''example.org''],
                  unless_domain = None\<rparr>,
      action = \<lparr>atype = ''css-display-none'', selector = Some ''.ad''\<rparr>\<rparr>"

definition exampleRules :: "input list" where
  "exampleRules = [Parsed exampleCssRule, Parsed exampleUrlRule, Null]"

text \<open>The entry of \<open>example.org##.ad\<close> after finalization.\<close>

definition exampleCssEntryFinal :: entry where
  "exampleCssEntryFinal =
     \<lparr>trigger = \<lparr>url_filter = ''.*'', url_filter_is_case_sensitive = None,
                  resource_type = None, load_type = None, if_domain = Some [''*example.org''],
                  unless_domain = None\<rparr>,
      action = \<lparr>atype = ''css-display-none'', selector = Some ''.ad''\<rparr>\<rparr>"

definition exampleResult :: conversionResult where
  "exampleResult =
     \<lparr>totalConvertedCount = 2, convertedCount = 1, errorsCount = 1, overLimit = True,
      converted = [exampleCssEntryFinal]\<rparr>"

section \<open>Lines that are not rules\<close>

text \<open>
  The texts that the parser ignores, in the words of the specification: \<open>null\<close>, the empty
  string, a line starting with \<open>!\<close>, a line starting with a space, a line containing \<open>' - '\<close>.
\<close>

definition ignoredNonRule :: "input \<Rightarrow> bool" where
  "ignoredNonRule x =
     (case x of
        Null \<Rightarrow> True
      | Line s \<Rightarrow> s = [] \<or> prefix ''!'' s \<or> prefix '' '' s \<or> sublist '' - '' s
      | Parsed r \<Rightarrow> False)"

section \<open>What the first loop collects\<close>

text \<open>
  The rules that the elements of an input resolve to, in order, and from them the rules kept
  for translation, the texts cancelled by \<open>$badfilter\<close> rules and the messages of the parser.
\<close>

definition resolvedRules :: "env \<Rightarrow> input list \<Rightarrow> rule list" where
  "resolvedRules env xs =
     concat (map (\<lambda>x. case fst (resolveRule env x) of None \<Rightarrow> [] | Some r \<Rightarrow> [r]) xs)"

definition translatedRules :: "env \<Rightarrow> input list \<Rightarrow> rule list" where
  "translatedRules env xs = filter (\<lambda>r. \<not> isBadFilter r) (resolvedRules env xs)"

definition cancelledTexts :: "env \<Rightarrow> input list \<Rightarrow> string list" where
  "cancelledTexts env xs = map badFilter (filter isBadFilter (resolvedRules env xs))"

definition parserMessages :: "env \<Rightarrow> input list \<Rightarrow> string list" where
  "parserMessages env xs = concat (map (\<lambda>x. snd (resolveRule env x)) xs)"


section \<open>The regular expressions that the target engine rejects\<close>





text \<open>The rule \<open>||example.com^$badfilter\<close>, which cancels \<open>||example.com^\<close>.\<close>

definition exampleBadFilterRule :: rule where
  "exampleBadFilterRule =
     exampleUrlRule\<lparr>ruleText := ''||example.com^$badfilter'', isBadFilter := True,
       badFilter := ''||example.com^''\<rparr>"

section \<open>Wide rules\<close>

text \<open>
  A hide entry is wide when it has neither an \<open>if-domain\<close> nor an \<open>unless-domain\<close>;
  \<open>commas\<close> counts the comma characters of a string.
\<close>

definition isWide :: "entry \<Rightarrow> bool" where
  "isWide e = (if_domain (trigger e) = None \<and> unless_domain (trigger e) = None)"

definition commas :: "string \<Rightarrow> nat" where
  "commas s = count_list s CHR '',''"

text \<open>A generic hide rule whose selector is the list \<open>a,a,...,a\<close> of 251 selectors.\<close>

definition exampleSelectorList :: string where
  "exampleSelectorList = concat (replicate 250 ''a,'') @ ''a''"

definition exampleListRule :: rule where
  "exampleListRule =
     exampleUrlRule\<lparr>cls := CssFilterRule, ruleText := ''##'' @ exampleSelectorList,
       cssSelector := exampleSelectorList\<rparr>"

text \<open>The generic hide rules \<open>##.ad\<close> and \<open>##.banner\<close>.\<close>

definition exampleAdRule :: rule where
  "exampleAdRule = exampleUrlRule\<lparr>cls := CssFilterRule, ruleText := ''##.ad'', cssSelector := ''.ad''\<rparr>"

definition exampleBannerRule :: rule where
  "exampleBannerRule =
     exampleUrlRule\<lparr>cls := CssFilterRule, ruleText := ''##.banner'', cssSelector := ''.banner''\<rparr>"

section \<open>Whitelist rules\<close>

text \<open>
  The rule \<open>@@||example.com^$document\<close> and the same rule with the restricted domain
  \<open>example.net\<close> (\<open>@@||example.com^$document,domain=~example.net\<close>), with their entries.
\<close>

definition exampleDocRule :: rule where
  "exampleDocRule =
     exampleUrlRule\<lparr>ruleText := ''@@||example.com^$document'', whiteListRule := True,
       isDocumentWhiteList := True\<rparr>"

definition exampleScopedDocRule :: rule where
  "exampleScopedDocRule =
     exampleDocRule\<lparr>ruleText := ''@@||example.com^$document,domain=~example.net'',
       restrictedDomain := Some ''example.net''\<rparr>"

definition exampleDocEntry :: entry where
  "exampleDocEntry =
     \<lparr>trigger = \<lparr>url_filter = URL_FILTER_ANY_URL, url_filter_is_case_sensitive = None,
                  resource_type = None, load_type = None, if_domain = Some [''example.com''],
                  unless_domain = None\<rparr>,
      action = \<lparr>atype = ''ignore-previous-rules'', selector = None\<rparr>\<rparr>"

definition exampleScopedDocEntry :: entry where
  "exampleScopedDocEntry =
     \<lparr>trigger = \<lparr>url_filter = URL_FILTER_ANY_URL, url_filter_is_case_sensitive = None,
                  resource_type = None, load_type = None, if_domain = Some [''example.com''],
                  unless_domain = Some [''example.net'']\<rparr>,
      action = \<lparr>atype = ''ignore-previous-rules'', selector = None\<rparr>\<rparr>"

definition exampleScopedDocEntryFinal :: entry where
  "exampleScopedDocEntryFinal =
     \<lparr>trigger = \<lparr>url_filter = URL_FILTER_ANY_URL, url_filter_is_case_sensitive = None,
                  resource_type = None, load_type = None, if_domain = Some [''*example.com''],
                  unless_domain = Some [''*example.net'']\<rparr>,
      action = \<lparr>atype = ''ignore-previous-rules'', selector = None\<rparr>\<rparr>"

section \<open>Evaluation of the examples\<close>

lemmas rx_defs = rxTest_def rxMatches_def rxDigit_def rxPipe_def rxNonAscii_def rxLookahead_def
  rxMeta_def Chr_def inRange_def codeUnit_def anyChar_def dot_def nonSpace_def bslash_def
  domainRegExp_def alnum_def atLeast2_def

lemmas str_defs = startWith_def indexOf_def indexOfFrom_def substring_def substringFrom_def
  toLowerCase_def lowerChar_def codeUnit_def char_of_def bit_Suc_0_iff showInt_def

lemmas rule_defs = convertUrlFilterRule_def createUrlFilterString_def ANY_URL_TEMPLATES_def
  truthy_def validateRegExp_def setWhiteList_def addResourceType_def addThirdParty_def
  addMatchCase_def addDomainOptions_def parseDomains_def domainsOf_def punyLower_def
  writeDomainOptions_def checkWhiteListExceptions_def isUrlBlockRule_def isCssExceptionRule_def
  isSingleOption_def deleteResourceType_def parseRuleDomain_def validateUrlBlockingRule_def
  URL_FILTER_ANY_URL_def URL_FILTER_CSS_RULES_def convertCssFilterRule_def convertAGRuleToCB_def
  convertAGRule_def Let_def

lemma exampleUrlRule_fields:
  "ruleText exampleUrlRule = ''||example.com^''" "isBadFilter exampleUrlRule = False"
  "isImportant exampleUrlRule = False"
  by (simp_all add: exampleUrlRule_def)

lemma exampleCssRule_fields:
  "ruleText exampleCssRule = ''example.org##.ad''" "isBadFilter exampleCssRule = False"
  "isImportant exampleCssRule = False"
  by (simp_all add: exampleUrlRule_def exampleCssRule_def)

lemma exampleUrlRule_converts: "convertAGRule exampleEnv exampleUrlRule = (Some exampleUrlEntry, [])"
  by (simp add: exampleEnv_def exampleUrlRule_def exampleUrlEntry_def rule_defs rx_defs str_defs)

lemma exampleCssRule_converts: "convertAGRule exampleEnv exampleCssRule = (Some exampleCssEntry, [])"
  by (simp add: exampleEnv_def exampleUrlRule_def exampleCssRule_def exampleCssEntry_def
        rule_defs str_defs)

lemma exampleRules_collected:
  "collectRules exampleEnv exampleRules =
     \<lparr>cb = \<lparr>cssBlockingWide = [], cssBlockingGenericDomainSensitive = [],
             cssBlockingGenericHideExceptions = [], cssBlockingDomainSensitive = [],
             cssElemhide = [], urlBlocking = [], other = [], important = [],
             importantExceptions = [], documentExceptions = [], errors = []\<rparr>,
      cssBlocking = [], cssExceptions = [], badFilterExceptions = [],
      agRules = [exampleCssRule, exampleUrlRule]\<rparr>"
  by (simp add: collectRules_def exampleRules_def collectRule_def resolveRule_def exampleUrlRule_fields
        exampleCssRule_fields parseAGRule_def pushErrors_def emptyConversion_def)

lemma exampleRules_converted:
  "convertRules exampleEnv (collectRules exampleEnv exampleRules) =
     \<lparr>cb = \<lparr>cssBlockingWide = [], cssBlockingGenericDomainSensitive = [],
             cssBlockingGenericHideExceptions = [], cssBlockingDomainSensitive = [],
             cssElemhide = [], urlBlocking = [exampleUrlEntry], other = [], important = [],
             importantExceptions = [], documentExceptions = [], errors = []\<rparr>,
      cssBlocking = [exampleCssEntry], cssExceptions = [], badFilterExceptions = [],
      agRules = [exampleCssRule, exampleUrlRule]\<rparr>"
  unfolding exampleRules_collected
  by (simp add: convertRules_def convertOne_def exampleUrlRule_fields exampleCssRule_fields
        exampleUrlRule_converts exampleCssRule_converts routeItem_def pushErrors_def
        exampleCssEntry_def exampleUrlEntry_def)

lemma exampleCssEntry_kept: "applyCssExceptions [exampleCssEntry] [] = [exampleCssEntry]"
  by (simp add: applyCssExceptions_def arrayToMap_def exampleCssEntry_def nonEmpty_def)

lemma exampleCssEntry_compacted:
  "compactCssRules [exampleCssEntry] =
     \<lparr>compactWide = [], compactDomainSensitive = [exampleCssEntry],
      compactGenericDomainSensitive = [], wideSelectors = []\<rparr>"
  by (simp add: compactCssRules_def addWideRule_def exampleCssEntry_def)

lemma exampleRules_lines:
  "convertLines exampleEnv exampleRules False =
     \<lparr>cssBlockingWide = [], cssBlockingGenericDomainSensitive = [],
      cssBlockingGenericHideExceptions = [], cssBlockingDomainSensitive = [exampleCssEntry],
      cssElemhide = [], urlBlocking = [exampleUrlEntry], other = [], important = [],
      importantExceptions = [], documentExceptions = [], errors = []\<rparr>"
  unfolding convertLines_def exampleRules_converted
  by (simp add: compactInto_def exampleCssEntry_kept exampleCssEntry_compacted)


lemma exampleRules_result:
  "convertArray exampleEnv (Some exampleRules) (Some 1) False = Some exampleResult"
proof -
  have "exampleRules \<noteq> []" by (simp add: exampleRules_def)
  then show ?thesis
    by (simp add: convertArray_def exampleRules_lines createConversionResult_def
          concatenated_def isOverLimit_def applyDomainWildcards_def addWildcard_def
          exampleResult_def exampleCssEntryFinal_def exampleCssEntry_def)
qed

section \<open>The result of a conversion\<close>

lemma applyDomainWildcards_length: "length (applyDomainWildcards rs) = length rs"
  by (simp add: applyDomainWildcards_def)

lemma isOverLimit_iff:
  "isOverLimit limit n \<longleftrightarrow> (\<exists>l. limit = Some l \<and> 0 < l \<and> l < int n)"
  by (cases limit) (auto simp: isOverLimit_def)

lemma createConversionResult_fields:
  "totalConvertedCount (createConversionResult c limit) = length (concatenated c)"
  "overLimit (createConversionResult c limit) = isOverLimit limit (length (concatenated c))"
  "convertedCount (createConversionResult c limit) = length (converted (createConversionResult c limit))"
  "converted (createConversionResult c limit) =
     applyDomainWildcards
       (if isOverLimit limit (length (concatenated c))
        then take (nat (case limit of Some l \<Rightarrow> l | None \<Rightarrow> 0)) (concatenated c)
        else concatenated c)"
  by (simp_all add: createConversionResult_def Let_def)

lemma convertArray_Some:
  "convertArray env rules limit optimize = Some res \<longleftrightarrow>
     (\<exists>rs. rules = Some rs \<and> rs \<noteq> []
        \<and> res = createConversionResult (convertLines env rs optimize) limit)"
  by (cases rules) (auto simp: convertArray_def)

text \<open>
  C9: \<open>convertArray\<close> returns \<open>null\<close> exactly when its \<open>rules\<close> argument is \<open>null\<close> or an empty
  sequence; every non-empty sequence gives a result object.
\<close>

theorem convertArray_null_iff:
  "convertArray env rules limit optimize = None \<longleftrightarrow> rules = None \<or> rules = Some []"
  by (cases rules) (auto simp: convertArray_def)

text \<open>
  C4: in a result of \<open>convertArray\<close>, \<open>totalConvertedCount\<close> is the length of the
  concatenated sequence before the limit is applied, \<open>convertedCount\<close> is the length of the
  sequence that is returned, \<open>totalConvertedCount \<ge> convertedCount\<close> with equality exactly
  when \<open>overLimit\<close> is false, and \<open>overLimit\<close> is true exactly when a positive limit was given
  and the concatenated sequence is longer than it; the returned sequence then has \<open>limit\<close>
  entries.
\<close>

theorem convertArray_counts:
  assumes "convertArray env rules limit optimize = Some res"
  shows "\<exists>rs. rules = Some rs
           \<and> totalConvertedCount res = length (concatenated (convertLines env rs optimize))
           \<and> convertedCount res = length (converted res)
           \<and> convertedCount res \<le> totalConvertedCount res
           \<and> (totalConvertedCount res = convertedCount res \<longleftrightarrow> overLimit res = False)
           \<and> (overLimit res \<longleftrightarrow>
                 (\<exists>l. limit = Some l \<and> 0 < l \<and> l < int (totalConvertedCount res)))
           \<and> (overLimit res \<longrightarrow> limit = Some (int (convertedCount res)))"
proof -
  from assms obtain rs where rs: "rules = Some rs"
    and res: "res = createConversionResult (convertLines env rs optimize) limit"
    by (auto simp: convertArray_Some)
  let ?n = "length (concatenated (convertLines env rs optimize))"
  have total: "totalConvertedCount res = ?n"
    by (simp add: res createConversionResult_fields)
  have over: "overLimit res = isOverLimit limit ?n"
    by (simp add: res createConversionResult_fields)
  have count: "convertedCount res = length (converted res)"
    by (simp add: res createConversionResult_fields(3))
  have len: "length (converted res) =
      (if isOverLimit limit ?n then min ?n (nat (case limit of Some l \<Rightarrow> l | None \<Rightarrow> 0)) else ?n)"
    by (simp add: res createConversionResult_fields(4) applyDomainWildcards_length)
  show ?thesis
  proof (cases "isOverLimit limit ?n")
    case True
    then obtain l where l: "limit = Some l" "0 < l" "l < int ?n"
      by (auto simp: isOverLimit_iff)
    have "length (converted res) = nat l" using True l len by simp
    with l rs total over count True show ?thesis by (auto simp: isOverLimit_iff)
  next
    case False
    with rs total over count len show ?thesis by (auto simp: isOverLimit_iff)
  qed
qed

theorem convertArray_counts_witness:
  "convertArray exampleEnv (Some exampleRules) (Some 1) False = Some exampleResult
   \<and> totalConvertedCount exampleResult = 2 \<and> convertedCount exampleResult = 1
   \<and> overLimit exampleResult
   \<and> (\<exists>rs. Some exampleRules = Some rs
           \<and> totalConvertedCount exampleResult = length (concatenated (convertLines exampleEnv rs False))
           \<and> convertedCount exampleResult \<le> totalConvertedCount exampleResult
           \<and> (totalConvertedCount exampleResult = convertedCount exampleResult
                \<longleftrightarrow> overLimit exampleResult = False))"
  using convertArray_counts [OF exampleRules_result] exampleRules_result
  by (auto simp: exampleResult_def)



text \<open>
  C2, as stated, fails: with a limit of 1 and two translated rules the returned sequence
  has one entry, the concatenation of the buckets has two.
\<close>

theorem converted_is_concatenation_counterexample:
  "map_option converted (convertArray exampleEnv (Some exampleRules) (Some 1) False)
     = Some [exampleCssEntryFinal]
   \<and> cssBlockingWide (convertLines exampleEnv exampleRules False)
     @ cssBlockingGenericDomainSensitive (convertLines exampleEnv exampleRules False)
     @ cssBlockingGenericHideExceptions (convertLines exampleEnv exampleRules False)
     @ cssBlockingDomainSensitive (convertLines exampleEnv exampleRules False)
     @ cssElemhide (convertLines exampleEnv exampleRules False)
     @ urlBlocking (convertLines exampleEnv exampleRules False)
     @ other (convertLines exampleEnv exampleRules False)
     @ important (convertLines exampleEnv exampleRules False)
     @ importantExceptions (convertLines exampleEnv exampleRules False)
     @ documentExceptions (convertLines exampleEnv exampleRules False)
     = [exampleCssEntry, exampleUrlEntry]
   \<and> [exampleCssEntryFinal] \<noteq> [exampleCssEntry, exampleUrlEntry]"
  by (simp add: exampleRules_result exampleResult_def exampleRules_lines)

text \<open>
  C2, amended: the returned sequence is the concatenation of the ten buckets in the order
  cssBlockingWide, cssBlockingGenericDomainSensitive, cssBlockingGenericHideExceptions,
  cssBlockingDomainSensitive, cssElemhide, urlBlocking, other, important,
  importantExceptions, documentExceptions, cut to its first \<open>limit\<close> entries when the result
  is over the limit, with the wildcard prefix put on the domains of its entries.
\<close>

theorem converted_is_concatenation_amended:
  assumes "convertArray env rules limit optimize = Some res"
  shows "\<exists>rs c conc. rules = Some rs \<and> c = convertLines env rs optimize
           \<and> conc = cssBlockingWide c @ cssBlockingGenericDomainSensitive c
                     @ cssBlockingGenericHideExceptions c @ cssBlockingDomainSensitive c
                     @ cssElemhide c @ urlBlocking c @ other c @ important c
                     @ importantExceptions c @ documentExceptions c
           \<and> (if overLimit res
               then \<exists>l. limit = Some l \<and> 0 < l \<and> l < int (length conc)
                      \<and> converted res = applyDomainWildcards (take (nat l) conc)
               else converted res = applyDomainWildcards conc)"
proof -
  from assms obtain rs where rs: "rules = Some rs"
    and res: "res = createConversionResult (convertLines env rs optimize) limit"
    by (auto simp: convertArray_Some)
  let ?c = "convertLines env rs optimize"
  have conc: "concatenated ?c = cssBlockingWide ?c @ cssBlockingGenericDomainSensitive ?c
                     @ cssBlockingGenericHideExceptions ?c @ cssBlockingDomainSensitive ?c
                     @ cssElemhide ?c @ urlBlocking ?c @ other ?c @ important ?c
                     @ importantExceptions ?c @ documentExceptions ?c"
    by (simp add: concatenated_def)
  show ?thesis
  proof (cases "isOverLimit limit (length (concatenated ?c))")
    case True
    then obtain l where l: "limit = Some l" "0 < l" "l < int (length (concatenated ?c))"
      by (auto simp: isOverLimit_iff)
    have "overLimit res" using True by (simp add: res createConversionResult_fields)
    moreover have "converted res = applyDomainWildcards (take (nat l) (concatenated ?c))"
      using True l by (simp add: res createConversionResult_fields)
    ultimately show ?thesis using rs l unfolding conc by simp
  next
    case False
    then have "\<not> overLimit res" "converted res = applyDomainWildcards (concatenated ?c)"
      by (simp_all add: res createConversionResult_fields)
    then show ?thesis using rs unfolding conc by simp
  qed
qed

theorem converted_is_concatenation_amended_witness:
  "convertArray exampleEnv (Some exampleRules) (Some 1) False = Some exampleResult
   \<and> overLimit exampleResult
   \<and> converted exampleResult = applyDomainWildcards (take 1 [exampleCssEntry, exampleUrlEntry])"
  using converted_is_concatenation_amended [OF exampleRules_result] exampleRules_result
  by (simp add: exampleResult_def exampleRules_lines)

section \<open>Searching in strings\<close>

lemma indexOfAt_bounds: "indexOfAt pat s i = -1 \<or> int i \<le> indexOfAt pat s i"
proof (induction s arbitrary: i)
  case Nil
  then show ?case by simp
next
  case (Cons c cs)
  from Cons [of "Suc i"] show ?case by auto
qed

lemma indexOfAt_here: "indexOfAt pat s i = int i \<longleftrightarrow> prefix pat s"
proof (cases s)
  case Nil
  then show ?thesis by simp
next
  case (Cons c cs)
  from indexOfAt_bounds [of pat cs "Suc i"] show ?thesis
    unfolding Cons by auto
qed

lemma indexOfAt_found: "0 \<le> indexOfAt pat s i \<longleftrightarrow> sublist pat s"
proof (induction s arbitrary: i)
  case Nil
  then show ?case by simp
next
  case (Cons c cs)
  then show ?case by (simp add: sublist_Cons_right)
qed

lemma indexOf_zero: "indexOf s pat = 0 \<longleftrightarrow> prefix pat s"
  using indexOfAt_here [of pat s 0] by (simp add: indexOf_def)

lemma indexOf_found: "0 \<le> indexOf s pat \<longleftrightarrow> sublist pat s"
  by (simp add: indexOf_def indexOfAt_found)

section \<open>Converting a line that is not a rule\<close>

lemma ignoredNonRule_parse:
  assumes "ignoredNonRule x"
  shows "parseAGRule env x = (None, [])"
proof (cases x)
  case Null
  then show ?thesis by (simp add: parseAGRule_def)
next
  case (Line s)
  with assms consider "s = []" | "prefix ''!'' s" | "prefix '' '' s" | "sublist '' - '' s"
    by (auto simp: ignoredNonRule_def)
  then have "s = [] \<or> indexOf s ''!'' = 0 \<or> indexOf s '' '' = 0 \<or> indexOf s '' - '' > 0"
  proof cases
    case 4
    then have "0 \<le> indexOf s '' - ''" by (simp add: indexOf_found)
    moreover have "indexOf s '' - '' = 0 \<Longrightarrow> prefix '' '' s"
    proof -
      assume "indexOf s '' - '' = 0"
      then have "prefix '' - '' s" by (simp add: indexOf_zero)
      then show "prefix '' '' s" by (auto simp: prefix_def)
    qed
    ultimately show ?thesis using indexOf_zero [of s "'' ''"] by linarith
  qed (simp_all add: indexOf_zero)
  with Line show ?thesis by (simp add: parseAGRule_def)
next
  case (Parsed r)
  with assms show ?thesis by (simp add: ignoredNonRule_def)
qed

text \<open>
  C10: for a text that the parser ignores (\<open>null\<close>, the empty string, a line starting with
  \<open>!\<close> or with a space, a line containing \<open>' - '\<close>), the parser returns \<open>null\<close> without a
  message, and \<open>convertLine\<close> returns \<open>null\<close> and pushes one message onto the errors array,
  when there is one: the message of the converter's \<open>Invalid argument rule\<close> error.
\<close>

theorem convertLine_ignored_text:
  assumes "ignoredNonRule x"
  shows "parseAGRule env x = (None, [])
         \<and> convertLine env x None = (None, None)
         \<and> convertLine env x (Some errs) =
             (None, Some (errs @ [inputToString env x @ CRLF @ ''Error converting rule from: ''
                                   @ inputToString env x @ '' cause:'' @ LF
                                   @ ''Error: Invalid argument rule'' @ CRLF]))"
  using ignoredNonRule_parse [OF assms, of env]
  by (simp add: convertLine_def convertAGRuleToCB_def report_def errorToString_def)

theorem convertLine_ignored_text_witness:
  "ignoredNonRule (Line ''! a comment'')
   \<and> convertLine exampleEnv (Line ''! a comment'') (Some []) =
       (None, Some [''! a comment'' @ CRLF @ ''Error converting rule from: ! a comment cause:''
                     @ LF @ ''Error: Invalid argument rule'' @ CRLF])"
proof -
  have h: "ignoredNonRule (Line ''! a comment'')" by (simp add: ignoredNonRule_def)
  from convertLine_ignored_text [OF h, of exampleEnv "[]"] h
  show ?thesis by (simp add: inputToString_def)
qed

section \<open>The first loop\<close>

lemma resolveRule_Some_no_message: "resolveRule env x = (Some r, msgs) \<Longrightarrow> msgs = []"
  by (cases x)
     (auto simp: resolveRule_def parseAGRule_def split: if_splits sum.splits option.splits)

lemma collectRule_fold:
  "foldl (\<lambda>st x. collectRule env x st) st xs =
     st\<lparr>cb := (cb st)\<lparr>errors := errors (cb st) @ parserMessages env xs\<rparr>,
        badFilterExceptions := badFilterExceptions st @ cancelledTexts env xs,
        agRules := agRules st @ translatedRules env xs\<rparr>"
proof (induction xs arbitrary: st)
  case Nil
  then show ?case
    by (simp add: parserMessages_def cancelledTexts_def translatedRules_def resolvedRules_def)
next
  case (Cons x xs)
  obtain r msgs where r: "resolveRule env x = (r, msgs)" by (cases "resolveRule env x")
  show ?case
    unfolding foldl_Cons Cons.IH
    by (cases r)
       (simp_all add: r collectRule_def pushErrors_def parserMessages_def cancelledTexts_def
          translatedRules_def resolvedRules_def)
qed

lemma collectRules_eq:
  "collectRules env xs =
     emptyConversion\<lparr>cb := (cb emptyConversion)\<lparr>errors := parserMessages env xs\<rparr>,
        badFilterExceptions := cancelledTexts env xs,
        agRules := translatedRules env xs\<rparr>"
  by (simp add: collectRules_def collectRule_fold) (simp add: emptyConversion_def)

lemma collectRules_fields:
  "agRules (collectRules env xs) = translatedRules env xs"
  "badFilterExceptions (collectRules env xs) = cancelledTexts env xs"
  "errors (cb (collectRules env xs)) = parserMessages env xs"
  by (simp_all add: collectRules_eq)

lemma resolvedRules_append [simp]:
  "resolvedRules env (xs @ ys) = resolvedRules env xs @ resolvedRules env ys"
  by (simp add: resolvedRules_def)

lemma resolvedRules_Cons:
  "resolveRule env x = (Some r, msgs) \<Longrightarrow> resolvedRules env (x # ys) = r # resolvedRules env ys"
  by (simp add: resolvedRules_def)

lemma parserMessages_append [simp]:
  "parserMessages env (xs @ ys) = parserMessages env xs @ parserMessages env ys"
  by (simp add: parserMessages_def)


section \<open>The second loop\<close>

lemma routeItem_keeps:
  "badFilterExceptions (routeItem env r item st) = badFilterExceptions st"
  "agRules (routeItem env r item st) = agRules st"
  "errors (cb (routeItem env r item st)) = errors (cb st)"
  by (simp_all add: routeItem_def Let_def)

lemma convertOne_keeps:
  "badFilterExceptions (convertOne env r st) = badFilterExceptions st"
  "agRules (convertOne env r st) = agRules st"
  by (simp_all add: convertOne_def routeItem_keeps pushErrors_def Let_def
        split: prod.splits option.splits)

lemma convertOne_fold_keeps:
  "badFilterExceptions (foldl (\<lambda>st r. convertOne env r st) st rs) = badFilterExceptions st"
  by (induction rs arbitrary: st) (simp_all add: convertOne_keeps)

lemma convertOne_suppressed:
  "ruleText r \<in> set (badFilterExceptions st) \<Longrightarrow> convertOne env r st = st"
  by (simp add: convertOne_def)












section \<open>Rules whose regular expression is rejected\<close>

text \<open>The five patterns and the domain pattern on sample strings.\<close>

lemma forbidden_pattern_examples:
  "rxTest rxDigit ''foo{1,3}bar''" "\<not> rxTest rxDigit ''foo{}bar''" "\<not> rxTest rxDigit ''foo{x}''"
  "rxTest rxPipe ''a|b''" "\<not> rxTest rxPipe ''|b''" "\<not> rxTest rxPipe (''a'' @ [bslash] @ ''|b'')"
  "rxTest rxNonAscii (''caf'' @ [CHR 0xE9])" "\<not> rxTest rxNonAscii ''cafe''"
  "rxTest rxLookahead ''a(?!b)c''" "\<not> rxTest rxLookahead ''a(?=b)c''"
  "rxTest rxMeta (''a'' @ [bslash] @ ''d'')" "\<not> rxTest rxMeta ([bslash] @ ''d'')"
  "\<not> rxTest rxMeta (''a'' @ [bslash] @ ''/'')"
  by (simp_all add: rx_defs)

lemma domain_pattern_examples:
  "rxMatches domainRegExp ''example.com''" "rxMatches domainRegExp ''sub.example-site.org''"
  "\<not> rxMatches domainRegExp ''example''" "\<not> rxMatches domainRegExp ''a.com''"
  "\<not> rxMatches domainRegExp ''example.com/path''" "\<not> rxMatches domainRegExp ''example.c''"
  by (simp_all add: rx_defs)




lemma translatedRules_insert:
  assumes "resolveRule env x = (Some rule, msgs)" and "\<not> isBadFilter rule"
  shows "translatedRules env (xs @ x # ys) = translatedRules env xs @ rule # translatedRules env ys"
    and "cancelledTexts env (xs @ x # ys) = cancelledTexts env (xs @ ys)"
    and "parserMessages env (xs @ x # ys) = parserMessages env (xs @ ys)"
    and "translatedRules env (xs @ ys) = translatedRules env xs @ translatedRules env ys"
proof -
  have m: "msgs = []" using assms(1) by (rule resolveRule_Some_no_message)
  show "translatedRules env (xs @ x # ys) = translatedRules env xs @ rule # translatedRules env ys"
    using assms by (simp add: translatedRules_def resolvedRules_Cons)
  show "cancelledTexts env (xs @ x # ys) = cancelledTexts env (xs @ ys)"
    using assms by (simp add: cancelledTexts_def resolvedRules_Cons)
  show "parserMessages env (xs @ x # ys) = parserMessages env (xs @ ys)"
    using assms m by (simp add: parserMessages_def)
  show "translatedRules env (xs @ ys) = translatedRules env xs @ translatedRules env ys"
    by (simp add: translatedRules_def)
qed











section \<open>Rules cancelled by a \<open>$badfilter\<close> rule\<close>

lemma convertOne_agRules:
  "convertOne env q (st\<lparr>agRules := a\<rparr>) = (convertOne env q st)\<lparr>agRules := a\<rparr>"
  by (simp add: convertOne_def routeItem_def pushErrors_def Let_def
        split: prod.splits option.splits)

lemma convertOne_fold_agRules:
  "foldl (\<lambda>st r. convertOne env r st) (st\<lparr>agRules := a\<rparr>) rs
     = (foldl (\<lambda>st r. convertOne env r st) st rs)\<lparr>agRules := a\<rparr>"
  by (induction rs arbitrary: st) (simp_all add: convertOne_agRules)

lemma compactInto_agRules: "compactInto optimize (st\<lparr>agRules := a\<rparr>) = compactInto optimize st"
  by (simp add: compactInto_def)

lemma convertOne_fold_skip_cancelled:
  assumes "t \<in> set (badFilterExceptions st)"
  shows "foldl (\<lambda>st r. convertOne env r st) st rs
           = foldl (\<lambda>st r. convertOne env r st) st (filter (\<lambda>r. ruleText r \<noteq> t) rs)"
  using assms
proof (induction rs arbitrary: st)
  case Nil
  then show ?case by simp
next
  case (Cons r rs)
  show ?case
  proof (cases "ruleText r = t")
    case True
    with Cons.prems have "convertOne env r st = st" by (simp add: convertOne_suppressed)
    with True Cons show ?thesis by simp
  next
    case False
    have "t \<in> set (badFilterExceptions (convertOne env r st))"
      using Cons.prems by (simp add: convertOne_keeps)
    from Cons.IH [OF this] False show ?thesis by simp
  qed
qed

lemma resolvedRules_member:
  assumes "b \<in> set xs" and "resolveRule env b = (Some bf, msgs)"
  shows "bf \<in> set (resolvedRules env xs)"
  using assms by (force simp: resolvedRules_def)

lemma collectRules_remove:
  assumes "resolveRule env x = (Some r, m)" and "\<not> isBadFilter r"
  shows "collectRules env (us @ x # vs)
           = (collectRules env (us @ vs))\<lparr>agRules := translatedRules env (us @ x # vs)\<rparr>"
  using translatedRules_insert(2,3) [OF assms, of us vs]
  by (simp add: collectRules_eq)

lemma cancelled_rule_removable:
  assumes x: "resolveRule env x = (Some r, m)" and nb: "\<not> isBadFilter r"
    and c: "ruleText r \<in> set (cancelledTexts env (us @ x # vs))"
  shows "convertLines env (us @ x # vs) optimize = convertLines env (us @ vs) optimize"
proof -
  let ?f = "\<lambda>st r. convertOne env r st"
  let ?st1 = "collectRules env (us @ x # vs)"
  let ?st2 = "collectRules env (us @ vs)"
  let ?mid = "foldl ?f ?st1 (translatedRules env us)"
  have "badFilterExceptions ?mid = cancelledTexts env (us @ x # vs)"
    by (simp add: convertOne_fold_keeps collectRules_fields)
  with c have skip: "convertOne env r ?mid = ?mid" by (simp add: convertOne_suppressed)
  have "convertRules env ?st1 = foldl ?f (convertOne env r ?mid) (translatedRules env vs)"
    by (simp add: convertRules_def collectRules_fields translatedRules_insert(1) [OF x nb])
  also have "\<dots> = foldl ?f ?st1 (translatedRules env (us @ vs))"
    by (simp add: skip translatedRules_insert(4) [OF x nb])
  also have "\<dots> = (foldl ?f ?st2 (translatedRules env (us @ vs)))
                      \<lparr>agRules := translatedRules env (us @ x # vs)\<rparr>"
    by (simp add: collectRules_remove [OF x nb] convertOne_fold_agRules)
  also have "foldl ?f ?st2 (translatedRules env (us @ vs)) = convertRules env ?st2"
    by (simp add: convertRules_def collectRules_fields)
  finally show ?thesis by (simp add: convertLines_def compactInto_agRules)
qed

text \<open>
  C7: let the input contain an element that is a rule with \<open>isBadFilter()\<close> true. Its
  \<open>badFilter\<close> text is in the suppression set and the rule is not among the rules that are
  translated; the rules whose \<open>ruleText\<close> equals that text are skipped by the second loop;
  and the whole conversion is the one of the input without such a rule, wherever the rule
  stands in the input, before or after the \<open>$badfilter\<close> rule.
\<close>

theorem badfilter_cancels_rule:
  assumes b: "b \<in> set xs" and rb: "resolveRule env b = (Some bf, msgs)"
    and bad: "isBadFilter bf"
  shows "badFilter bf \<in> set (badFilterExceptions (collectRules env xs))
         \<and> bf \<notin> set (agRules (collectRules env xs))
         \<and> convertRules env (collectRules env xs)
             = foldl (\<lambda>st r. convertOne env r st) (collectRules env xs)
                 (filter (\<lambda>r. ruleText r \<noteq> badFilter bf) (agRules (collectRules env xs)))
         \<and> (\<forall>x r m us vs optimize.
               xs = us @ x # vs \<and> resolveRule env x = (Some r, m) \<and> \<not> isBadFilter r
               \<and> ruleText r = badFilter bf
               \<longrightarrow> convertLines env xs optimize = convertLines env (us @ vs) optimize)"
proof -
  have "bf \<in> set (resolvedRules env xs)" using b rb by (rule resolvedRules_member)
  with bad have in_set: "badFilter bf \<in> set (cancelledTexts env xs)"
    by (simp add: cancelledTexts_def)
  then have 1: "badFilter bf \<in> set (badFilterExceptions (collectRules env xs))"
    by (simp add: collectRules_fields)
  have 2: "bf \<notin> set (agRules (collectRules env xs))"
    using bad by (simp add: collectRules_fields translatedRules_def)
  have 3: "convertRules env (collectRules env xs)
             = foldl (\<lambda>st r. convertOne env r st) (collectRules env xs)
                 (filter (\<lambda>r. ruleText r \<noteq> badFilter bf) (agRules (collectRules env xs)))"
    unfolding convertRules_def using 1 by (rule convertOne_fold_skip_cancelled)
  have 4: "convertLines env xs optimize = convertLines env (us @ vs) optimize"
    if "xs = us @ x # vs" "resolveRule env x = (Some r, m)" "\<not> isBadFilter r"
       "ruleText r = badFilter bf" for x r m us vs optimize
    using cancelled_rule_removable [OF that(2,3), of us vs optimize] in_set that(1,4) by simp
  from 1 2 3 4 show ?thesis by blast
qed

lemma exampleBadFilterRule_fields:
  "ruleText exampleBadFilterRule = ''||example.com^$badfilter''"
  "isBadFilter exampleBadFilterRule" "badFilter exampleBadFilterRule = ''||example.com^''"
  by (simp_all add: exampleBadFilterRule_def exampleUrlRule_def)

lemma exampleBadFilterRule_alone:
  "convertLines exampleEnv [Parsed exampleBadFilterRule] False =
     \<lparr>cssBlockingWide = [], cssBlockingGenericDomainSensitive = [],
      cssBlockingGenericHideExceptions = [], cssBlockingDomainSensitive = [],
      cssElemhide = [], urlBlocking = [], other = [], important = [],
      importantExceptions = [], documentExceptions = [], errors = []\<rparr>"
  by (simp add: convertLines_def collectRules_def collectRule_def resolveRule_def
        exampleBadFilterRule_fields pushErrors_def emptyConversion_def convertRules_def
        compactInto_def applyCssExceptions_def arrayToMap_def compactCssRules_def
        addWideRule_def)

theorem badfilter_cancels_rule_witness:
  "Parsed exampleBadFilterRule \<in> set [Parsed exampleUrlRule, Parsed exampleBadFilterRule]
   \<and> resolveRule exampleEnv (Parsed exampleBadFilterRule) = (Some exampleBadFilterRule, [])
   \<and> isBadFilter exampleBadFilterRule
   \<and> ruleText exampleUrlRule = badFilter exampleBadFilterRule
   \<and> ''||example.com^''
        \<in> set (badFilterExceptions
                 (collectRules exampleEnv [Parsed exampleUrlRule, Parsed exampleBadFilterRule]))
   \<and> urlBlocking (convertLines exampleEnv [Parsed exampleUrlRule, Parsed exampleBadFilterRule] False)
       = []
   \<and> urlBlocking (convertLines exampleEnv [Parsed exampleUrlRule] False) = [exampleUrlEntry]"
proof -
  let ?xs = "[Parsed exampleUrlRule, Parsed exampleBadFilterRule]"
  have b: "Parsed exampleBadFilterRule \<in> set ?xs" by simp
  have rb: "resolveRule exampleEnv (Parsed exampleBadFilterRule) = (Some exampleBadFilterRule, [])"
    by (simp add: resolveRule_def exampleBadFilterRule_fields)
  have bad: "isBadFilter exampleBadFilterRule" by (simp add: exampleBadFilterRule_fields)
  have rx: "resolveRule exampleEnv (Parsed exampleUrlRule) = (Some exampleUrlRule, [])"
    by (simp add: resolveRule_def exampleUrlRule_fields)
  have same: "ruleText exampleUrlRule = badFilter exampleBadFilterRule"
    by (simp add: exampleUrlRule_fields exampleBadFilterRule_fields)
  note inst = badfilter_cancels_rule [OF b rb bad]
  from inst have 1: "badFilter exampleBadFilterRule
      \<in> set (badFilterExceptions (collectRules exampleEnv ?xs))" by blast
  from inst have "\<forall>x r m us vs optimize.
               ?xs = us @ x # vs \<and> resolveRule exampleEnv x = (Some r, m) \<and> \<not> isBadFilter r
               \<and> ruleText r = badFilter exampleBadFilterRule
               \<longrightarrow> convertLines exampleEnv ?xs optimize = convertLines exampleEnv (us @ vs) optimize"
    by blast
  from this [rule_format, of "[]" "Parsed exampleUrlRule" "[Parsed exampleBadFilterRule]"
               exampleUrlRule "[]" False]
  have 2: "convertLines exampleEnv ?xs False = convertLines exampleEnv [Parsed exampleBadFilterRule] False"
    using rx same by (simp add: exampleUrlRule_fields)
  have 3: "urlBlocking (convertLines exampleEnv [Parsed exampleUrlRule] False) = [exampleUrlEntry]"
    by (simp add: convertLines_def collectRules_def collectRule_def resolveRule_def
        exampleUrlRule_fields pushErrors_def emptyConversion_def convertRules_def
        convertOne_def exampleUrlRule_converts routeItem_def exampleUrlEntry_def
        compactInto_def applyCssExceptions_def arrayToMap_def compactCssRules_def
        addWideRule_def)
  show ?thesis
    using b rb bad same 1 3 unfolding 2 exampleBadFilterRule_alone
    by (simp add: exampleBadFilterRule_fields)
qed

section \<open>Compacting the wide rules\<close>

lemma compactLoop_wide:
  assumes "compactWide st = map wideRule bl"
    and "\<forall>b \<in> set bl. length b = MAX_SELECTORS_PER_WIDE_RULE"
    and "length (wideSelectors st) < MAX_SELECTORS_PER_WIDE_RULE"
  shows "\<exists>bl'. compactWide (compactLoop css st) = map wideRule bl'
           \<and> (\<forall>b \<in> set bl'. length b = MAX_SELECTORS_PER_WIDE_RULE)
           \<and> length (wideSelectors (compactLoop css st)) < MAX_SELECTORS_PER_WIDE_RULE
           \<and> concat bl' @ wideSelectors (compactLoop css st)
               = concat bl @ wideSelectors st @ map selectorText (filter isWide css)"
  using assms
proof (induction css arbitrary: st bl)
  case Nil
  then show ?case by auto
next
  case (Cons rule rest)
  let ?ws = "wideSelectors st @ [selectorText rule]"
  consider (scoped) "\<not> isWide rule"
    | (room) "isWide rule" "length ?ws < MAX_SELECTORS_PER_WIDE_RULE"
    | (full) "isWide rule" "length ?ws \<ge> MAX_SELECTORS_PER_WIDE_RULE"
    by linarith
  then show ?case
  proof cases
    case scoped
    let ?st' = "if if_domain (trigger rule) \<noteq> None
                then st\<lparr>compactDomainSensitive := compactDomainSensitive st @ [rule]\<rparr>
                else st\<lparr>compactGenericDomainSensitive := compactGenericDomainSensitive st @ [rule]\<rparr>"
    have step: "compactLoop (rule # rest) st = compactLoop rest ?st'"
      using scoped by (auto simp: isWide_def)
    have "compactWide ?st' = map wideRule bl" "wideSelectors ?st' = wideSelectors st"
      using Cons.prems(1) by auto
    with Cons.IH [of ?st' bl] Cons.prems(2,3) scoped show ?thesis
      unfolding step by auto
  next
    case room
    let ?st' = "st\<lparr>wideSelectors := ?ws\<rparr>"
    have step: "compactLoop (rule # rest) st = compactLoop rest ?st'"
      using room by (simp add: isWide_def Let_def)
    from Cons.IH [of ?st' bl] Cons.prems(1,2) room show ?thesis
      unfolding step by auto
  next
    case full
    let ?st' = "st\<lparr>compactWide := addWideRule ?ws (compactWide st), wideSelectors := []\<rparr>"
    have step: "compactLoop (rule # rest) st = compactLoop rest ?st'"
      using full by (simp add: isWide_def Let_def)
    have len: "length ?ws = MAX_SELECTORS_PER_WIDE_RULE"
      using full(2) Cons.prems(3) by simp
    have w: "compactWide ?st' = map wideRule (bl @ [?ws])"
      using Cons.prems(1) by (simp add: addWideRule_def)
    have "\<forall>b \<in> set (bl @ [?ws]). length b = MAX_SELECTORS_PER_WIDE_RULE"
      using Cons.prems(2) len by auto
    from Cons.IH [OF w this] full(1) show ?thesis
      unfolding step by (auto simp: MAX_SELECTORS_PER_WIDE_RULE_def)
  qed
qed

lemma compactCssRules_wide:
  "\<exists>full rest. compactWide (compactCssRules css)
                  = map wideRule (full @ (if rest = [] then [] else [rest]))
           \<and> (\<forall>b \<in> set full. length b = MAX_SELECTORS_PER_WIDE_RULE)
           \<and> length rest < MAX_SELECTORS_PER_WIDE_RULE
           \<and> concat full @ rest = map selectorText (filter isWide css)"
proof -
  let ?st0 = "\<lparr>compactWide = [], compactDomainSensitive = [],
               compactGenericDomainSensitive = [], wideSelectors = []\<rparr>"
  have "\<exists>bl'. compactWide (compactLoop css ?st0) = map wideRule bl'
           \<and> (\<forall>b \<in> set bl'. length b = MAX_SELECTORS_PER_WIDE_RULE)
           \<and> length (wideSelectors (compactLoop css ?st0)) < MAX_SELECTORS_PER_WIDE_RULE
           \<and> concat bl' @ wideSelectors (compactLoop css ?st0)
               = concat [] @ wideSelectors ?st0 @ map selectorText (filter isWide css)"
    by (rule compactLoop_wide) (simp_all add: MAX_SELECTORS_PER_WIDE_RULE_def)
  then obtain bl' where bl':
    "compactWide (compactLoop css ?st0) = map wideRule bl'"
    "\<forall>b \<in> set bl'. length b = MAX_SELECTORS_PER_WIDE_RULE"
    "length (wideSelectors (compactLoop css ?st0)) < MAX_SELECTORS_PER_WIDE_RULE"
    "concat bl' @ wideSelectors (compactLoop css ?st0) = map selectorText (filter isWide css)"
    by auto
  have "compactWide (compactCssRules css)
          = map wideRule (bl' @ (if wideSelectors (compactLoop css ?st0) = [] then []
                                 else [wideSelectors (compactLoop css ?st0)]))"
    using bl'(1) by (simp add: compactCssRules_def addWideRule_def Let_def)
  with bl'(2,3,4) show ?thesis by blast
qed

lemma commas_join:
  "commas (join '', '' sels) = sum_list (map commas sels) + (length sels - 1)"
  by (induction "'', ''" sels rule: join.induct) (simp_all add: commas_def)

lemma convertLines_wide:
  "cssBlockingWide (convertLines env xs optimize) =
     (if optimize then []
      else compactWide (compactCssRules
             (applyCssExceptions (cssBlocking (convertRules env (collectRules env xs)))
                                 (cssExceptions (convertRules env (collectRules env xs))))))"
proof -
  have "cssBlockingWide (cb (foldl (\<lambda>st r. convertOne env r st) st rs)) = cssBlockingWide (cb st)"
    for st rs
    by (induction rs arbitrary: st)
       (simp_all add: convertOne_def routeItem_def pushErrors_def Let_def
          split: prod.splits option.splits)
  then have "cssBlockingWide (cb (convertRules env (collectRules env xs))) = []"
    by (simp add: convertRules_def collectRules_eq emptyConversion_def)
  then show ?thesis by (simp add: convertLines_def compactInto_def Let_def)
qed


text \<open>
  An exception for \<open>example.com\<close> on the selector of a generic hide entry moves the domain
  into the \<open>unless-domain\<close> of the entry; on an entry scoped to \<open>example.org\<close> it does
  not apply.
\<close>

lemma applyCssExceptions_example:
  "applyCssExceptions
     [wideRule [''.ad''], exampleCssEntry]
     [exampleCssEntry\<lparr>trigger := (trigger exampleCssEntry)\<lparr>if_domain := Some [''example.com'']\<rparr>,
                       action := (action exampleCssEntry)\<lparr>atype := ''ignore-previous-rules''\<rparr>\<rparr>]
   = [(wideRule [''.ad''])\<lparr>trigger := (trigger (wideRule [''.ad'']))
                              \<lparr>unless_domain := Some [''example.com'']\<rparr>\<rparr>,
      exampleCssEntry]"
  by (simp add: applyCssExceptions_def arrayToMap_def selectorKey_def iterator_def
        pushExceptionDomain_def nonEmpty_def wideRule_def exampleCssEntry_def indexOf_def
        Let_def)

lemma wideRule_fields:
  "url_filter (trigger (wideRule sels)) = ''.*''"
  "atype (action (wideRule sels)) = ''css-display-none''"
  "selector (action (wideRule sels)) = Some (join '', '' sels)"
  "if_domain (trigger (wideRule sels)) = None"
  "unless_domain (trigger (wideRule sels)) = None"
  by (simp_all add: wideRule_def URL_FILTER_CSS_RULES_def)

lemma commas_replicate: "commas (concat (replicate n s)) = n * commas s"
  by (induction n) (simp_all add: commas_def)

lemma exampleSelectorList_commas: "commas exampleSelectorList = 250"
proof -
  have "commas exampleSelectorList = commas (concat (replicate 250 ''a,'')) + commas ''a''"
    by (simp add: exampleSelectorList_def commas_def)
  also have "\<dots> = 250 * commas ''a,'' + commas ''a''" by (simp only: commas_replicate)
  also have "\<dots> = 250" by (simp add: commas_def)
  finally show ?thesis .
qed

lemma exampleListRule_fields:
  "ruleText exampleListRule \<noteq> []" "\<not> isBadFilter exampleListRule"
  by (simp_all add: exampleListRule_def exampleUrlRule_def)

lemma exampleListRule_converts:
  "convertAGRule exampleEnv exampleListRule =
     (Some \<lparr>trigger = \<lparr>url_filter = ''.*'', url_filter_is_case_sensitive = None,
                        resource_type = None, load_type = None, if_domain = None,
                        unless_domain = None\<rparr>,
            action = \<lparr>atype = ''css-display-none'', selector = Some exampleSelectorList\<rparr>\<rparr>, [])"
  by (simp add: exampleEnv_def exampleUrlRule_def exampleListRule_def rule_defs)

lemma exampleListRule_lines:
  "convertLines exampleEnv [Parsed exampleListRule] False =
     \<lparr>cssBlockingWide = [wideRule [exampleSelectorList]],
      cssBlockingGenericDomainSensitive = [],
      cssBlockingGenericHideExceptions = [], cssBlockingDomainSensitive = [],
      cssElemhide = [], urlBlocking = [], other = [], important = [],
      importantExceptions = [], documentExceptions = [], errors = []\<rparr>"
  by (simp add: convertLines_def collectRules_def collectRule_def resolveRule_def
        exampleListRule_fields pushErrors_def emptyConversion_def convertRules_def
        convertOne_def exampleListRule_converts routeItem_def
        compactInto_def applyCssExceptions_def arrayToMap_def nonEmpty_def compactCssRules_def
        addWideRule_def selectorText_def MAX_SELECTORS_PER_WIDE_RULE_def)

text \<open>
  C8, as stated, fails: the generic hide rule whose selector is the selector list
  \<open>a,a,...,a\<close> of 251 selectors gives one entry of cssBlockingWide, and its selector has 250
  commas.
\<close>

theorem wide_selector_commas_counterexample:
  "cssBlockingWide (convertLines exampleEnv [Parsed exampleListRule] False)
     = [wideRule [exampleSelectorList]]
   \<and> map_option converted (convertArray exampleEnv (Some [Parsed exampleListRule]) None False)
     = Some [wideRule [exampleSelectorList]]
   \<and> selector (action (wideRule [exampleSelectorList])) = Some exampleSelectorList
   \<and> commas exampleSelectorList = 250
   \<and> \<not> commas exampleSelectorList \<le> 249"
  by (simp add: exampleListRule_lines exampleSelectorList_commas wideRule_fields
        convertArray_def createConversionResult_def concatenated_def isOverLimit_def
        applyDomainWildcards_def addWildcard_def wideRule_def)

text \<open>
  C8, amended: the entries of cssBlockingWide are the wide rules of the batches of the
  selectors of the wide hide entries, in insertion order: every batch but the last has 250
  selectors, the last one, flushed at the end, has fewer and is left out when empty (with
  \<open>optimize\<close> the category is empty). So every entry of the category combines between 1 and
  250 selectors, joined by comma and space, under the url-filter \<open>.*\<close>, and the number of
  commas of its selector string is the number of commas inside the combined selectors plus
  one less than their number: at most 249 when no combined selector has a comma.
\<close>

theorem wide_rules_are_batches:
  "\<exists>full rest.
      cssBlockingWide (convertLines env xs optimize)
        = (if optimize then [] else map wideRule (full @ (if rest = [] then [] else [rest])))
      \<and> (\<forall>b \<in> set full. length b = 250) \<and> length rest < 250
      \<and> concat full @ rest
          = map selectorText (filter isWide
              (applyCssExceptions (cssBlocking (convertRules env (collectRules env xs)))
                                  (cssExceptions (convertRules env (collectRules env xs)))))
      \<and> (\<forall>e \<in> set (cssBlockingWide (convertLines env xs optimize)).
            \<exists>sels. 1 \<le> length sels \<and> length sels \<le> 250
              \<and> url_filter (trigger e) = ''.*''
              \<and> atype (action e) = ''css-display-none''
              \<and> selector (action e) = Some (join '', '' sels)
              \<and> commas (join '', '' sels) = sum_list (map commas sels) + (length sels - 1)
              \<and> ((\<forall>s \<in> set sels. commas s = 0) \<longrightarrow> commas (join '', '' sels) \<le> 249))"
proof -
  let ?hiding = "applyCssExceptions (cssBlocking (convertRules env (collectRules env xs)))
                                    (cssExceptions (convertRules env (collectRules env xs)))"
  from compactCssRules_wide [of ?hiding] obtain full rest where
    w: "compactWide (compactCssRules ?hiding)
          = map wideRule (full @ (if rest = [] then [] else [rest]))"
    and f: "\<forall>b \<in> set full. length b = 250" and r: "length rest < 250"
    and c: "concat full @ rest = map selectorText (filter isWide ?hiding)"
    unfolding MAX_SELECTORS_PER_WIDE_RULE_def by blast
  have wide: "cssBlockingWide (convertLines env xs optimize)
        = (if optimize then [] else map wideRule (full @ (if rest = [] then [] else [rest])))"
    by (simp add: convertLines_wide w)
  have each: "\<exists>sels. 1 \<le> length sels \<and> length sels \<le> 250
              \<and> url_filter (trigger e) = ''.*''
              \<and> atype (action e) = ''css-display-none''
              \<and> selector (action e) = Some (join '', '' sels)
              \<and> commas (join '', '' sels) = sum_list (map commas sels) + (length sels - 1)
              \<and> ((\<forall>s \<in> set sels. commas s = 0) \<longrightarrow> commas (join '', '' sels) \<le> 249)"
    if e: "e \<in> set (cssBlockingWide (convertLines env xs optimize))" for e
  proof -
    from e wide obtain sels where s: "e = wideRule sels"
      and m: "sels \<in> set full \<or> (sels = rest \<and> rest \<noteq> [])"
      by (auto split: if_splits)
    from m f r have len: "1 \<le> length sels" "length sels \<le> 250"
      by (auto simp: Suc_le_eq)
    have zero: "commas (join '', '' sels) \<le> 249" if "\<forall>s \<in> set sels. commas s = 0"
    proof -
      from that have "sum_list (map commas sels) = 0" by simp
      with len commas_join [of sels] show ?thesis by linarith
    qed
    from s len zero show ?thesis
      by (auto simp: wideRule_fields commas_join)
  qed
  from wide f r c each show ?thesis by blast
qed

lemma exampleAdRules_lines:
  "cssBlockingWide (convertLines exampleEnv [Parsed exampleAdRule, Parsed exampleBannerRule] False)
     = [wideRule [''.ad'', ''.banner'']]"
proof -
  have ad: "convertAGRule exampleEnv exampleAdRule =
     (Some \<lparr>trigger = \<lparr>url_filter = ''.*'', url_filter_is_case_sensitive = None,
                        resource_type = None, load_type = None, if_domain = None,
                        unless_domain = None\<rparr>,
            action = \<lparr>atype = ''css-display-none'', selector = Some ''.ad''\<rparr>\<rparr>, [])"
    by (simp add: exampleEnv_def exampleUrlRule_def exampleAdRule_def rule_defs)
  have banner: "convertAGRule exampleEnv exampleBannerRule =
     (Some \<lparr>trigger = \<lparr>url_filter = ''.*'', url_filter_is_case_sensitive = None,
                        resource_type = None, load_type = None, if_domain = None,
                        unless_domain = None\<rparr>,
            action = \<lparr>atype = ''css-display-none'', selector = Some ''.banner''\<rparr>\<rparr>, [])"
    by (simp add: exampleEnv_def exampleUrlRule_def exampleBannerRule_def rule_defs)
  have fields: "ruleText exampleAdRule = ''##.ad''" "\<not> isBadFilter exampleAdRule"
    "ruleText exampleBannerRule = ''##.banner''" "\<not> isBadFilter exampleBannerRule"
    by (simp_all add: exampleAdRule_def exampleBannerRule_def exampleUrlRule_def)
  show ?thesis
    by (simp add: convertLines_def collectRules_def collectRule_def resolveRule_def
        fields pushErrors_def emptyConversion_def convertRules_def
        convertOne_def ad banner routeItem_def
        compactInto_def applyCssExceptions_def arrayToMap_def nonEmpty_def compactCssRules_def
        addWideRule_def selectorText_def MAX_SELECTORS_PER_WIDE_RULE_def)
qed

theorem wide_rules_are_batches_witness:
  "cssBlockingWide (convertLines exampleEnv [Parsed exampleAdRule, Parsed exampleBannerRule] False)
     = [wideRule [''.ad'', ''.banner'']]
   \<and> selector (action (wideRule [''.ad'', ''.banner''])) = Some ''.ad, .banner''
   \<and> commas ''.ad, .banner'' = 1
   \<and> (\<exists>sels. 1 \<le> length sels \<and> length sels \<le> 250
         \<and> ''.ad, .banner'' = join '', '' sels
         \<and> commas ''.ad, .banner'' = sum_list (map commas sels) + (length sels - 1))"
proof -
  let ?xs = "[Parsed exampleAdRule, Parsed exampleBannerRule]"
  have sel: "selector (action (wideRule [''.ad'', ''.banner''])) = Some ''.ad, .banner''"
    by (simp add: wideRule_fields)
  from wide_rules_are_batches [of exampleEnv ?xs False]
  have "\<forall>e \<in> set (cssBlockingWide (convertLines exampleEnv ?xs False)).
            \<exists>sels. 1 \<le> length sels \<and> length sels \<le> 250
              \<and> selector (action e) = Some (join '', '' sels)
              \<and> commas (join '', '' sels) = sum_list (map commas sels) + (length sels - 1)"
    by blast
  then have "\<exists>sels. 1 \<le> length sels \<and> length sels \<le> 250
              \<and> selector (action (wideRule [''.ad'', ''.banner''])) = Some (join '', '' sels)
              \<and> commas (join '', '' sels) = sum_list (map commas sels) + (length sels - 1)"
    by (simp add: exampleAdRules_lines)
  then obtain sels where "1 \<le> length sels" "length sels \<le> 250"
    "''.ad, .banner'' = join '', '' sels"
    "commas (join '', '' sels) = sum_list (map commas sels) + (length sels - 1)"
    unfolding sel by auto
  then have "\<exists>sels. 1 \<le> length sels \<and> length sels \<le> 250
         \<and> ''.ad, .banner'' = join '', '' sels
         \<and> commas ''.ad, .banner'' = sum_list (map commas sels) + (length sels - 1)"
    by metis
  moreover have "commas ''.ad, .banner'' = 1" by (simp add: commas_def)
  ultimately show ?thesis using exampleAdRules_lines sel by blast
qed

section \<open>The whitelist rewrite\<close>

lemma example_domain_parsed:
  "parseRuleDomain exampleEnv ''||example.com^'' = Some \<lparr>domain = ''example.com'', path = Some ''^''\<rparr>"
  by (simp add: parseRuleDomain_def exampleEnv_def rx_defs str_defs Let_def)

lemma exampleDocRule_fields:
  "whiteListRule exampleDocRule" "isDocumentWhiteList exampleDocRule"
  "urlRuleText exampleDocRule = ''||example.com^''" "cls exampleDocRule = UrlFilterRule"
  by (simp_all add: exampleDocRule_def exampleUrlRule_def)

lemma exampleScopedDocRule_fields:
  "whiteListRule exampleScopedDocRule" "isDocumentWhiteList exampleScopedDocRule"
  "urlRuleText exampleScopedDocRule = ''||example.com^''"
  "cls exampleScopedDocRule = UrlFilterRule"
  "ruleText exampleScopedDocRule = ''@@||example.com^$document,domain=~example.net''"
  "\<not> isBadFilter exampleScopedDocRule" "\<not> isImportant exampleScopedDocRule"
  "enabledOptions exampleScopedDocRule = 0"
  by (simp_all add: exampleScopedDocRule_def exampleDocRule_def exampleUrlRule_def)

lemma example_filter_valid: "validateRegExp ''example.com'' = Inr ()"
  by (simp add: validateRegExp_def rx_defs)

lemma exampleEnv_fields:
  "ALL_TYPES (contentTypes exampleEnv) = 1023" "toPunyCode exampleEnv = (\<lambda>s. s)"
  "GENERICHIDE (options exampleEnv) = 8" "ELEMHIDE (options exampleEnv) = 16"
  by (simp_all add: exampleEnv_def)

lemma exampleDocRule_more_fields:
  "\<not> isCspRule exampleDocRule" "permittedContentType exampleDocRule = 1023"
  "restrictedContentType exampleDocRule = 0" "\<not> isCheckThirdParty exampleDocRule"
  "\<not> isMatchCase exampleDocRule" "permittedDomain exampleDocRule = None"
  "permittedDomains exampleDocRule = None" "restrictedDomain exampleDocRule = None"
  "restrictedDomains exampleDocRule = None"
  by (simp_all add: exampleDocRule_def exampleUrlRule_def)

lemma exampleScopedDocRule_more_fields:
  "\<not> isCspRule exampleScopedDocRule" "permittedContentType exampleScopedDocRule = 1023"
  "restrictedContentType exampleScopedDocRule = 0" "\<not> isCheckThirdParty exampleScopedDocRule"
  "\<not> isMatchCase exampleScopedDocRule" "permittedDomain exampleScopedDocRule = None"
  "permittedDomains exampleScopedDocRule = None"
  "restrictedDomain exampleScopedDocRule = Some ''example.net''"
  by (simp_all add: exampleScopedDocRule_def exampleDocRule_def exampleUrlRule_def)

lemmas rewrite_defs = convertUrlFilterRule_def checkWhiteListExceptions_def
  setWhiteList_def addResourceType_def addThirdParty_def addMatchCase_def
  addDomainOptions_def parseDomains_def domainsOf_def truthy_def writeDomainOptions_def
  punyLower_def toLowerCase_def lowerChar_def codeUnit_def
  deleteResourceType_def validateUrlBlockingRule_def Let_def

lemma exampleDocRule_translated:
  "convertUrlFilterRule exampleEnv exampleDocRule = Inr exampleDocEntry"
proof -
  have f: "createUrlFilterString exampleEnv exampleDocRule = ''example.com''"
    by (simp add: createUrlFilterString_def exampleDocRule_def exampleUrlRule_def
          exampleEnv_def ANY_URL_TEMPLATES_def truthy_def)
  have p: "parseRuleDomain exampleEnv (urlRuleText exampleDocRule)
             = Some \<lparr>domain = ''example.com'', path = Some ''^''\<rparr>"
    by (simp add: exampleDocRule_fields example_domain_parsed)
  show ?thesis
    by (simp add: rewrite_defs f example_filter_valid example_domain_parsed exampleDocRule_fields
          exampleDocRule_more_fields exampleEnv_fields exampleDocEntry_def)
qed

lemma exampleScopedDocRule_translated:
  "convertUrlFilterRule exampleEnv exampleScopedDocRule = Inr exampleScopedDocEntry"
proof -
  have f: "createUrlFilterString exampleEnv exampleScopedDocRule = ''example.com''"
    by (simp add: createUrlFilterString_def exampleScopedDocRule_def exampleDocRule_def
          exampleUrlRule_def exampleEnv_def ANY_URL_TEMPLATES_def truthy_def)
  have p: "parseRuleDomain exampleEnv (urlRuleText exampleScopedDocRule)
             = Some \<lparr>domain = ''example.com'', path = Some ''^''\<rparr>"
    by (simp add: exampleScopedDocRule_fields example_domain_parsed)
  show ?thesis
    by (simp add: rewrite_defs f example_filter_valid example_domain_parsed exampleScopedDocRule_fields
          exampleScopedDocRule_more_fields exampleEnv_fields exampleScopedDocEntry_def)
qed

subsection \<open>Where the two domain scopes exclude each other\<close>

lemma writeDomainOptions_exclusive:
  assumes "writeDomainOptions included excluded trg = Inr trg'"
    and "if_domain trg = None" and "unless_domain trg = None"
  shows "\<not> (nonEmpty (if_domain trg') \<and> nonEmpty (unless_domain trg'))"
  using assms by (auto simp: writeDomainOptions_def nonEmpty_def Let_def split: if_splits)

lemma convertCssFilterRule_exclusive:
  assumes "convertCssFilterRule env rule = Inr e"
  shows "\<not> (nonEmpty (if_domain (trigger e)) \<and> nonEmpty (unless_domain (trigger e)))"
proof -
  from assms obtain trg trg' included excluded where
    w: "writeDomainOptions included excluded trg = Inr trg'"
    and e: "trigger e = trg'" and n: "if_domain trg = None" "unless_domain trg = None"
    by (auto simp: convertCssFilterRule_def addDomainOptions_def setWhiteList_def Let_def
          split: if_splits sum.splits prod.splits)
  from writeDomainOptions_exclusive [OF w n] e show ?thesis by simp
qed

lemma addResourceType_domains:
  assumes "addResourceType env rule result = Inr r"
  shows "if_domain (trigger r) = if_domain (trigger result)"
    and "unless_domain (trigger r) = unless_domain (trigger result)"
  using assms by (auto simp: addResourceType_def Let_def split: if_splits)

lemma addThirdParty_addMatchCase_domains:
  "if_domain (addMatchCase (addThirdParty trg rule) rule) = if_domain trg"
  "unless_domain (addMatchCase (addThirdParty trg rule) rule) = unless_domain trg"
  by (simp_all add: addMatchCase_def addThirdParty_def)

lemma checkWhiteListExceptions_blocking:
  "\<not> whiteListRule rule \<Longrightarrow> checkWhiteListExceptions env rule result = Inr result"
  by (simp add: checkWhiteListExceptions_def)

lemma convertUrlFilterRule_exclusive:
  assumes "convertUrlFilterRule env rule = Inr e" and "\<not> whiteListRule rule"
  shows "\<not> (nonEmpty (if_domain (trigger e)) \<and> nonEmpty (unless_domain (trigger e)))"
proof -
  let ?r0 = "\<lparr>trigger = \<lparr>url_filter = createUrlFilterString env rule,
                            url_filter_is_case_sensitive = None, resource_type = None,
                            load_type = None, if_domain = None, unless_domain = None\<rparr>,
               action = \<lparr>atype = ''block'', selector = None\<rparr>\<rparr>"
  from assms obtain r1 trg' where
    a: "addResourceType env rule ?r0 = Inr r1"
    and d: "addDomainOptions env (addMatchCase (addThirdParty (trigger r1) rule) rule) rule = Inr trg'"
    and e: "e = r1\<lparr>trigger := trg'\<rparr>"
    by (auto simp: convertUrlFilterRule_def checkWhiteListExceptions_blocking setWhiteList_def
          Let_def split: if_splits sum.splits)
  from d obtain included excluded where
    w: "writeDomainOptions included excluded (addMatchCase (addThirdParty (trigger r1) rule) rule)
          = Inr trg'"
    by (auto simp: addDomainOptions_def split: prod.splits)
  have n: "if_domain (addMatchCase (addThirdParty (trigger r1) rule) rule) = None"
    "unless_domain (addMatchCase (addThirdParty (trigger r1) rule) rule) = None"
    using addResourceType_domains [OF a] by (simp_all add: addThirdParty_addMatchCase_domains)
  from writeDomainOptions_exclusive [OF w n] e show ?thesis by simp
qed

lemma applyCssExceptions_exclusive:
  assumes "r \<in> set (applyCssExceptions hiding exceptions)"
  shows "\<not> (nonEmpty (if_domain (trigger r)) \<and> nonEmpty (unless_domain (trigger r)))"
  using assms by (auto simp: applyCssExceptions_def Let_def)

text \<open>
  C1 fails on the code: the whitelist rewrite of \<open>checkWhiteListExceptions\<close> writes the
  parsed domain into \<open>if-domain\<close> and leaves the \<open>unless-domain\<close> that the restricted
  domains of the rule gave. For the input \<open>@@||example.com^$document,domain=~example.net\<close>
  the conversion returns one entry, whose \<open>if-domain\<close> and \<open>unless-domain\<close> are both
  non-empty.
\<close>

theorem whitelist_rewrite_emits_both_scopes:
  "convertArray exampleEnv (Some [Parsed exampleScopedDocRule]) None False
     = Some \<lparr>totalConvertedCount = 1, convertedCount = 1, errorsCount = 0, overLimit = False,
             converted = [exampleScopedDocEntryFinal]\<rparr>
   \<and> if_domain (trigger exampleScopedDocEntryFinal) = Some [''*example.com'']
   \<and> unless_domain (trigger exampleScopedDocEntryFinal) = Some [''*example.net'']"
proof -
  have a: "convertAGRule exampleEnv exampleScopedDocRule = (Some exampleScopedDocEntry, [])"
    by (simp add: convertAGRule_def convertAGRuleToCB_def exampleScopedDocRule_fields
          exampleScopedDocRule_translated)
  have l: "convertLines exampleEnv [Parsed exampleScopedDocRule] False =
     \<lparr>cssBlockingWide = [], cssBlockingGenericDomainSensitive = [],
      cssBlockingGenericHideExceptions = [], cssBlockingDomainSensitive = [],
      cssElemhide = [], urlBlocking = [], other = [], important = [],
      importantExceptions = [], documentExceptions = [exampleScopedDocEntry], errors = []\<rparr>"
    by (simp add: convertLines_def collectRules_def collectRule_def resolveRule_def
        exampleScopedDocRule_fields pushErrors_def emptyConversion_def convertRules_def
        convertOne_def a routeItem_def exampleScopedDocEntry_def truthy_def isSingleOption_def
        exampleEnv_fields
        compactInto_def applyCssExceptions_def arrayToMap_def nonEmpty_def compactCssRules_def
        addWideRule_def)
  show ?thesis
    by (simp add: convertArray_def l createConversionResult_def concatenated_def
          isOverLimit_def applyDomainWildcards_def addWildcard_def exampleScopedDocEntry_def
          exampleScopedDocEntryFinal_def)
qed

text \<open>
  C5, as stated, fails: for \<open>@@||example.com^$document,domain=~example.net\<close>, a document
  whitelist rule whose parsed domain is \<open>example.com\<close> with the path \<open>^\<close>, the url-filter of
  the entry is \<open>^[htpsw]+:\/\/\<close>, not \<open>^[htpsw]:\/\/\<close>, and the \<open>unless-domain\<close> is not
  empty.
\<close>

theorem whitelist_rewrite_counterexample:
  "whiteListRule exampleScopedDocRule \<and> isDocumentWhiteList exampleScopedDocRule
   \<and> parseRuleDomain exampleEnv (urlRuleText exampleScopedDocRule)
       = Some \<lparr>domain = ''example.com'', path = Some ''^''\<rparr>
   \<and> convertUrlFilterRule exampleEnv exampleScopedDocRule = Inr exampleScopedDocEntry
   \<and> url_filter (trigger exampleScopedDocEntry)
       = ''^[htpsw]+:'' @ [CHR 0x5C] @ ''/'' @ [CHR 0x5C] @ ''/''
   \<and> url_filter (trigger exampleScopedDocEntry)
       \<noteq> ''^[htpsw]:'' @ [CHR 0x5C] @ ''/'' @ [CHR 0x5C] @ ''/''
   \<and> unless_domain (trigger exampleScopedDocEntry) = Some [''example.net'']"
  by (simp add: exampleScopedDocRule_fields example_domain_parsed
        exampleScopedDocRule_translated)
     (simp add: exampleScopedDocEntry_def URL_FILTER_ANY_URL_def bslash_def)

lemma checkWhiteListExceptions_rewrites:
  assumes "whiteListRule rule"
    and "isDocumentWhiteList rule \<or> isUrlBlockRule env rule \<or> isCssExceptionRule env rule"
    and "parseRuleDomain env (urlRuleText rule) = Some pd"
    and "path pd = None \<or> path pd = Some ''^'' \<or> path pd = Some ''/''"
    and "checkWhiteListExceptions env rule result = Inr e"
  shows "if_domain (trigger e) = Some [domain pd]"
    and "url_filter (trigger e) = URL_FILTER_ANY_URL"
    and "resource_type (trigger e) = None"
    and "atype (action e) = atype (action result)"
  using assms
  by (auto simp: checkWhiteListExceptions_def writeDomainOptions_def deleteResourceType_def
        Let_def split: if_splits)

text \<open>
  C5, amended: for a whitelist url rule that triggers the whitelist rewrite
  (document whitelist, or sole option URLBLOCK or GENERICBLOCK, or sole option GENERICHIDE
  or ELEMHIDE) and whose parsed domain exists with a trivial path (absent, \<open>^\<close> or \<open>/\<close>), the
  entry that the translation gives has the single parsed domain as its \<open>if-domain\<close>, the
  url-filter \<open>^[htpsw]+:\/\/\<close> and no \<open>resource-type\<close>.
\<close>

theorem whitelist_rewrite_entry:
  assumes "whiteListRule rule"
    and "isDocumentWhiteList rule \<or> isSingleOption rule (URLBLOCK (options env))
         \<or> isSingleOption rule (GENERICBLOCK (options env))
         \<or> isSingleOption rule (GENERICHIDE (options env))
         \<or> isSingleOption rule (ELEMHIDE (options env))"
    and "parseRuleDomain env (urlRuleText rule) = Some pd"
    and "path pd = None \<or> path pd = Some ''^'' \<or> path pd = Some ''/''"
    and "convertUrlFilterRule env rule = Inr e"
  shows "if_domain (trigger e) = Some [domain pd]
         \<and> url_filter (trigger e) = ''^[htpsw]+:'' @ [CHR 0x5C] @ ''/'' @ [CHR 0x5C] @ ''/''
         \<and> resource_type (trigger e) = None"
proof -
  have trig: "isDocumentWhiteList rule \<or> isUrlBlockRule env rule \<or> isCssExceptionRule env rule"
    using assms(2) by (auto simp: isUrlBlockRule_def isCssExceptionRule_def)
  from assms(5) obtain result where c: "checkWhiteListExceptions env rule result = Inr e"
    by (auto simp: convertUrlFilterRule_def Let_def split: if_splits sum.splits)
  from checkWhiteListExceptions_rewrites(1,2,3) [OF assms(1) trig assms(3,4) c]
  show ?thesis by (simp add: URL_FILTER_ANY_URL_def bslash_def)
qed

theorem whitelist_rewrite_entry_witness:
  "whiteListRule exampleDocRule \<and> isDocumentWhiteList exampleDocRule
   \<and> parseRuleDomain exampleEnv (urlRuleText exampleDocRule)
       = Some \<lparr>domain = ''example.com'', path = Some ''^''\<rparr>
   \<and> convertUrlFilterRule exampleEnv exampleDocRule = Inr exampleDocEntry
   \<and> if_domain (trigger exampleDocEntry) = Some [''example.com'']
   \<and> url_filter (trigger exampleDocEntry)
       = ''^[htpsw]+:'' @ [CHR 0x5C] @ ''/'' @ [CHR 0x5C] @ ''/''
   \<and> resource_type (trigger exampleDocEntry) = None"
proof -
  have w: "whiteListRule exampleDocRule" by (simp add: exampleDocRule_fields)
  have d: "isDocumentWhiteList exampleDocRule
         \<or> isSingleOption exampleDocRule (URLBLOCK (options exampleEnv))
         \<or> isSingleOption exampleDocRule (GENERICBLOCK (options exampleEnv))
         \<or> isSingleOption exampleDocRule (GENERICHIDE (options exampleEnv))
         \<or> isSingleOption exampleDocRule (ELEMHIDE (options exampleEnv))"
    by (simp add: exampleDocRule_fields)
  have p: "parseRuleDomain exampleEnv (urlRuleText exampleDocRule)
             = Some \<lparr>domain = ''example.com'', path = Some ''^''\<rparr>"
    by (simp add: exampleDocRule_fields example_domain_parsed)
  have t: "path \<lparr>domain = ''example.com'', path = Some ''^''\<rparr> = None
           \<or> path \<lparr>domain = ''example.com'', path = Some ''^''\<rparr> = Some ''^''
           \<or> path \<lparr>domain = ''example.com'', path = Some ''^''\<rparr> = Some ''/''"
    by simp
  from whitelist_rewrite_entry [OF w d p t exampleDocRule_translated]
  show ?thesis using w p exampleDocRule_translated by (simp add: exampleDocRule_fields)
qed

end
